theory Spec2Isabelle
  imports Main "HOL-Library.AList"
begin

section \<open>Data model of the tenant connection service\<close>

text \<open>
  The development embeds \<^verbatim>\<open>TenantConnectionService\<close>
  (\<^verbatim>\<open>services/tenant-connection.service.ts\<close>) together with the interfaces, constants
  and exceptions it uses. The two JavaScript \<^verbatim>\<open>Map\<close> fields of the service are
  association lists in insertion order: \<^verbatim>\<open>Map.set\<close> is \<open>AList.update\<close> (replace in
  place, or append a new key at the end), \<^verbatim>\<open>Map.delete\<close> is \<open>AList.delete\<close>,
  \<^verbatim>\<open>Map.get\<close> is \<open>map_of\<close>, \<^verbatim>\<open>Map.keys\<close> is \<open>map fst\<close> and
  \<^verbatim>\<open>Map.size\<close> is \<open>length\<close>.
\<close>

subsection \<open>interfaces/tenant-config.interface.ts\<close>

text \<open>
  \<^verbatim>\<open>TenancyDriver\<close> is a string enum; at run time the configured driver is whatever
  string the configuration object holds, which is why the \<^verbatim>\<open>switch\<close> on it has a
  \<^verbatim>\<open>default\<close> branch.
\<close>

definition MYSQL :: string where "MYSQL = ''mysql''"
definition POSTGRESQL :: string where "POSTGRESQL = ''postgresql''"
definition MONGODB :: string where "MONGODB = ''mongodb''"

text \<open>
  The fields of \<^verbatim>\<open>TenantConfig\<close> read by the connection service. Optional fields
  (\<^verbatim>\<open>cacheConnections?\<close>, \<^verbatim>\<open>idleTimeout?\<close>, ...) are options, \<open>None\<close> standing for
  \<^verbatim>\<open>undefined\<close>.
\<close>

record TenantConfig =
  driver :: string
  cacheConnections :: "bool option"
  maxConnections :: "int option"
  connectionTimeout :: "int option"
  idleTimeout :: "int option"

record TenantConnectionInfo =
  id' :: string
  name :: string
  host :: string
  port :: int
  username :: string
  password :: string
  database :: string
  schema :: "string option"
  isActive :: bool

subsection \<open>constants/tokens.ts\<close>

definition DEFAULT_CONNECTION_POOL_SIZE :: int where "DEFAULT_CONNECTION_POOL_SIZE = 10"
definition DEFAULT_CONNECTION_TIMEOUT :: int where "DEFAULT_CONNECTION_TIMEOUT = 30000"
definition DEFAULT_IDLE_TIMEOUT :: int where "DEFAULT_IDLE_TIMEOUT = 300000"

subsection \<open>exceptions/tenant.exceptions.ts\<close>

text \<open>
  Each exception class is a constructor carrying the constructor arguments of the class;
  \<^verbatim>\<open>originalError?.message\<close> is the optional message of the wrapped error.
\<close>

datatype TenantException =
    TenantNotFoundException string
  | TenantInactiveException string
  | InvalidTenantIdException string
  | TenantConnectionException string "string option"
  | CentralDatabaseConnectionException "string option"
  | TenantConfigMissingException
  | UnsupportedDatabaseDriverException string
  | TenantIdentifierNotFoundException string string

subsection \<open>Collaborators and service state\<close>

text \<open>
  A connection object is either a TypeORM \<^verbatim>\<open>DataSource\<close> or a mongoose connection; the
  number is the identity of the object (two connections are the same object iff they are
  equal here).
\<close>

datatype Connection = DataSource nat | MongoConnection nat

text \<open>A promise of a collaborator settles with a value or rejects with an error message.\<close>

datatype 'a outcome = Resolves 'a | Rejects string

text \<open>
  The collaborators the service calls: the \<^verbatim>\<open>tenants\<close> repository of the central
  connection (\<^verbatim>\<open>getRepository('tenants').findOne\<close>), the two drivers' connect calls
  (\<^verbatim>\<open>dataSource.initialize()\<close> for the given \<^verbatim>\<open>type\<close>, \<^verbatim>\<open>mongoose.createConnection\<close>)
  and the two close calls (\<^verbatim>\<open>DataSource.destroy\<close>, \<^verbatim>\<open>connection.close\<close>) on an object.
\<close>

record World =
  findOne :: "string \<Rightarrow> TenantConnectionInfo option outcome"
  initialize :: "string \<Rightarrow> TenantConnectionInfo \<Rightarrow> unit outcome"
  createConnection :: "TenantConnectionInfo \<Rightarrow> unit outcome"
  destroy :: "nat \<Rightarrow> unit outcome"
  close :: "nat \<Rightarrow> unit outcome"

text \<open>
  Calls to the collaborators and \<^verbatim>\<open>logger.error\<close> calls are recorded in a trace
  (\<^verbatim>\<open>logger.debug\<close> and \<^verbatim>\<open>logger.log\<close> lines are not modelled).
\<close>

datatype Event =
    FindOneCalled string
  | InitializeCalled string nat
  | CreateConnectionCalled string nat
  | DestroyCalled nat
  | CloseCalled nat
  | LogError string string

text \<open>
  The service state: its two maps, and of the JavaScript runtime the timers armed by
  \<^verbatim>\<open>setTimeout\<close> and not yet fired or cleared (identity, the tenant id its callback
  closes over, delay in ms), the next fresh timer and object identities, and the trace.
\<close>

record State =
  connectionCache :: "(string \<times> Connection) list"
  connectionTimers :: "(string \<times> nat) list"
  pending :: "(nat \<times> string \<times> int) list"
  nextTimer :: nat
  nextObject :: nat
  trace :: "Event list"

definition initial :: State where
  "initial = \<lparr>connectionCache = [], connectionTimers = [], pending = [],
              nextTimer = 0, nextObject = 0, trace = []\<rparr>"

section \<open>The service, one call at a time\<close>

text \<open>
  Each \<^verbatim>\<open>async\<close> method is first embedded as a function that runs the call to its end,
  every \<^verbatim>\<open>await\<close> settling at once with the collaborator's outcome: this is the
  behaviour of a call that no other call overlaps. A \<^verbatim>\<open>throw\<close> is the \<open>Inl\<close> result.
\<close>

text \<open>JavaScript's \<^verbatim>\<open>x || d\<close> on an optional number: \<^verbatim>\<open>undefined\<close> and \<open>0\<close> are falsy.\<close>

definition orDefault :: "int option \<Rightarrow> int \<Rightarrow> int" where
  "orDefault x d = (case x of None \<Rightarrow> d | Some n \<Rightarrow> if n = 0 then d else n)"

text \<open>\<^verbatim>\<open>this.tenantConfig.cacheConnections\<close> used as a condition.\<close>

definition cacheEnabled :: "TenantConfig \<Rightarrow> bool" where
  "cacheEnabled cfg = (cacheConnections cfg = Some True)"

definition getTenantInfo :: "World \<Rightarrow> string \<Rightarrow> State \<Rightarrow> TenantConnectionInfo option \<times> State" where
  "getTenantInfo w tenantId s =
     (case findOne w tenantId of
        Resolves tenant \<Rightarrow> (tenant, s\<lparr>trace := trace s @ [FindOneCalled tenantId]\<rparr>)
      | Rejects e \<Rightarrow>
          (None, s\<lparr>trace := trace s @
             [FindOneCalled tenantId, LogError (''Failed to get tenant info for '' @ tenantId @ '':'') e]\<rparr>))"

definition createSqlConnection ::
  "TenantConfig \<Rightarrow> World \<Rightarrow> TenantConnectionInfo \<Rightarrow> State \<Rightarrow> (string + Connection) \<times> State" where
  "createSqlConnection cfg w tenantInfo s =
     (let dataSource = nextObject s;
          s1 = s\<lparr>nextObject := Suc dataSource,
                 trace := trace s @ [InitializeCalled (id' tenantInfo) dataSource]\<rparr>
      in case initialize w (driver cfg) tenantInfo of
           Resolves _ \<Rightarrow> (Inr (DataSource dataSource), s1)
         | Rejects e \<Rightarrow> (Inl e, s1))"

definition createMongoConnection ::
  "TenantConfig \<Rightarrow> World \<Rightarrow> TenantConnectionInfo \<Rightarrow> State \<Rightarrow> (string + Connection) \<times> State" where
  "createMongoConnection cfg w tenantInfo s =
     (let connection = nextObject s;
          s1 = s\<lparr>nextObject := Suc connection,
                 trace := trace s @ [CreateConnectionCalled (id' tenantInfo) connection]\<rparr>
      in case createConnection w tenantInfo of
           Resolves _ \<Rightarrow> (Inr (MongoConnection connection), s1)
         | Rejects e \<Rightarrow> (Inl e, s1))"

text \<open>
  \<^verbatim>\<open>createTenantConnection\<close>: the \<^verbatim>\<open>switch\<close> on the driver inside a \<^verbatim>\<open>try\<close> whose
  \<^verbatim>\<open>catch\<close> logs and rethrows every error, the one of the \<^verbatim>\<open>default\<close> branch included,
  as a \<^verbatim>\<open>TenantConnectionException\<close>.
\<close>

definition createTenantConnection ::
  "TenantConfig \<Rightarrow> World \<Rightarrow> TenantConnectionInfo \<Rightarrow> State \<Rightarrow> (TenantException + Connection) \<times> State" where
  "createTenantConnection cfg w tenantInfo s =
     (let (r, s1) =
            (if driver cfg = MYSQL \<or> driver cfg = POSTGRESQL then createSqlConnection cfg w tenantInfo s
             else if driver cfg = MONGODB then createMongoConnection cfg w tenantInfo s
             else (Inl (''Unsupported driver: '' @ driver cfg), s))
      in case r of
           Inr connection \<Rightarrow> (Inr connection, s1)
         | Inl error \<Rightarrow>
             (Inl (TenantConnectionException (id' tenantInfo) (Some error)),
              s1\<lparr>trace := trace s1 @
                 [LogError (''Failed to create connection for tenant '' @ id' tenantInfo @ '':'') error]\<rparr>))"

text \<open>\<^verbatim>\<open>clearTimeout\<close>: the timer is no longer armed.\<close>

definition clearTimeout :: "nat \<Rightarrow> State \<Rightarrow> State" where
  "clearTimeout timer s = s\<lparr>pending := filter (\<lambda>p. fst p \<noteq> timer) (pending s)\<rparr>"

definition setConnectionTimer :: "TenantConfig \<Rightarrow> string \<Rightarrow> State \<Rightarrow> State" where
  "setConnectionTimer cfg tenantId s =
     (let timeout = orDefault (idleTimeout cfg) DEFAULT_IDLE_TIMEOUT;
          timer = nextTimer s
      in s\<lparr>pending := pending s @ [(timer, tenantId, timeout)],
            nextTimer := Suc timer,
            connectionTimers := AList.update tenantId timer (connectionTimers s)\<rparr>)"

definition resetConnectionTimer :: "TenantConfig \<Rightarrow> string \<Rightarrow> State \<Rightarrow> State" where
  "resetConnectionTimer cfg tenantId s =
     (case map_of (connectionTimers s) tenantId of
        Some existingTimer \<Rightarrow> setConnectionTimer cfg tenantId (clearTimeout existingTimer s)
      | None \<Rightarrow> setConnectionTimer cfg tenantId s)"

definition getTenantConnection ::
  "TenantConfig \<Rightarrow> World \<Rightarrow> string \<Rightarrow> State \<Rightarrow> (TenantException + Connection) \<times> State" where
  "getTenantConnection cfg w tenantId s =
     (if cacheEnabled cfg \<and> map_of (connectionCache s) tenantId \<noteq> None
      then (Inr (the (map_of (connectionCache s) tenantId)), resetConnectionTimer cfg tenantId s)
      else
        (case getTenantInfo w tenantId s of
           (None, s1) \<Rightarrow> (Inl (TenantNotFoundException tenantId), s1)
         | (Some tenantInfo, s1) \<Rightarrow>
             if \<not> isActive tenantInfo then (Inl (TenantInactiveException tenantId), s1)
             else
               (case createTenantConnection cfg w tenantInfo s1 of
                  (Inl e, s2) \<Rightarrow> (Inl e, s2)
                | (Inr connection, s2) \<Rightarrow>
                    if cacheEnabled cfg
                    then (Inr connection,
                          setConnectionTimer cfg tenantId
                            (s2\<lparr>connectionCache :=
                                  AList.update tenantId connection (connectionCache s2)\<rparr>))
                    else (Inr connection, s2))))"

text \<open>
  The \<^verbatim>\<open>TenantContext\<close> object returned by \<^verbatim>\<open>getTenantContext\<close>; its fields
  \<^verbatim>\<open>tenantId\<close>, \<^verbatim>\<open>tenantInfo\<close> and \<^verbatim>\<open>connection\<close> carry the prefix \<open>ctx\<close>, and the
  field \<^verbatim>\<open>id\<close> of \<^verbatim>\<open>TenantConnectionInfo\<close> is \<open>id'\<close>.
\<close>

record TenantContext =
  ctxTenantId :: string
  ctxTenantInfo :: TenantConnectionInfo
  ctxConnection :: Connection

definition getTenantContext ::
  "TenantConfig \<Rightarrow> World \<Rightarrow> string \<Rightarrow> State \<Rightarrow> (TenantException + TenantContext) \<times> State" where
  "getTenantContext cfg w tenantId s =
     (case getTenantInfo w tenantId s of
        (None, s1) \<Rightarrow> (Inl (TenantNotFoundException tenantId), s1)
      | (Some tenantInfo, s1) \<Rightarrow>
          (case getTenantConnection cfg w tenantId s1 of
             (Inl e, s2) \<Rightarrow> (Inl e, s2)
           | (Inr connection, s2) \<Rightarrow>
               (Inr \<lparr>ctxTenantId = tenantId, ctxTenantInfo = tenantInfo,
                     ctxConnection = connection\<rparr>, s2)))"

text \<open>
  \<^verbatim>\<open>closeConnection\<close>: nothing happens without a cached connection; otherwise the close
  call of the connection is made and awaited. \<open>closeSettled\<close> is the code that runs once
  that call has settled: the two \<^verbatim>\<open>delete\<close> calls stand after the close inside the
  \<^verbatim>\<open>try\<close>, so they run only if the close did not throw, and the \<^verbatim>\<open>catch\<close> logs the
  error. No branch calls \<^verbatim>\<open>clearTimeout\<close>.
\<close>

definition closeCall :: "World \<Rightarrow> Connection \<Rightarrow> unit outcome" where
  "closeCall w c = (case c of DataSource n \<Rightarrow> destroy w n | MongoConnection n \<Rightarrow> close w n)"

definition closeEvent :: "Connection \<Rightarrow> Event" where
  "closeEvent c = (case c of DataSource n \<Rightarrow> DestroyCalled n | MongoConnection n \<Rightarrow> CloseCalled n)"

definition closeSettled :: "World \<Rightarrow> string \<Rightarrow> Connection \<Rightarrow> State \<Rightarrow> State" where
  "closeSettled w tenantId connection s =
     (case closeCall w connection of
        Resolves _ \<Rightarrow>
          s\<lparr>connectionCache := AList.delete tenantId (connectionCache s),
             connectionTimers := AList.delete tenantId (connectionTimers s)\<rparr>
      | Rejects e \<Rightarrow>
          s\<lparr>trace := trace s @
             [LogError (''Failed to close connection for tenant '' @ tenantId @ '':'') e]\<rparr>)"

definition closeConnection :: "World \<Rightarrow> string \<Rightarrow> State \<Rightarrow> State" where
  "closeConnection w tenantId s =
     (case map_of (connectionCache s) tenantId of
        None \<Rightarrow> s
      | Some connection \<Rightarrow>
          closeSettled w tenantId connection (s\<lparr>trace := trace s @ [closeEvent connection]\<rparr>))"

text \<open>
  \<^verbatim>\<open>closeAllConnections\<close> maps \<^verbatim>\<open>closeConnection\<close> over the keys of the cache: each of
  these calls runs up to its \<^verbatim>\<open>await\<close>, so the close calls of all cached connections
  are made first, in key order; \<^verbatim>\<open>Promise.all\<close> then waits until every one of them has
  settled and its call has run to the end (taken in key order here).
  \<^verbatim>\<open>onModuleDestroy\<close> only calls \<^verbatim>\<open>closeAllConnections\<close>.
\<close>

definition closeAllConnections :: "World \<Rightarrow> State \<Rightarrow> State" where
  "closeAllConnections w s =
     (let closing = concat (map (\<lambda>tenantId. case map_of (connectionCache s) tenantId of
                                               None \<Rightarrow> []
                                             | Some connection \<Rightarrow> [(tenantId, connection)])
                            (map fst (connectionCache s)));
          s1 = s\<lparr>trace := trace s @ map (\<lambda>p. closeEvent (snd p)) closing\<rparr>
      in fold (\<lambda>p. closeSettled w (fst p) (snd p)) closing s1)"

definition onModuleDestroy :: "World \<Rightarrow> State \<Rightarrow> State" where
  "onModuleDestroy w s = closeAllConnections w s"

record ConnectionStats =
  totalConnections :: nat
  activeTenants :: "string list"

definition getConnectionStats :: "State \<Rightarrow> ConnectionStats" where
  "getConnectionStats s =
     \<lparr>totalConnections = length (connectionCache s), activeTenants = map fst (connectionCache s)\<rparr>"

text \<open>
  An armed timer elapses: the runtime runs the callback given to \<^verbatim>\<open>setTimeout\<close> in
  \<^verbatim>\<open>setConnectionTimer\<close>, which calls \<^verbatim>\<open>closeConnection\<close> for the tenant id it closed
  over. A timer that is not armed (fired or cleared before) does nothing.
\<close>

definition timerFires :: "World \<Rightarrow> nat \<Rightarrow> State \<Rightarrow> State" where
  "timerFires w timer s =
     (case find (\<lambda>p. fst p = timer) (pending s) of
        None \<Rightarrow> s
      | Some (_, tenantId, _) \<Rightarrow> closeConnection w tenantId (clearTimeout timer s))"

text \<open>The number of calls to the backend connector recorded in a trace.\<close>

fun isConnectorCall :: "Event \<Rightarrow> bool" where
  "isConnectorCall (InitializeCalled _ _) = True"
| "isConnectorCall (CreateConnectionCalled _ _) = True"
| "isConnectorCall _ = False"

definition connectorCalls :: "State \<Rightarrow> nat" where
  "connectorCalls s = length (filter isConnectorCall (trace s))"

text \<open>
  The outcome of the backend connector for a tenant under the configured driver: the
  promise awaited in \<^verbatim>\<open>createSqlConnection\<close> or in \<^verbatim>\<open>createMongoConnection\<close>.
\<close>

definition connectorOutcome :: "TenantConfig \<Rightarrow> World \<Rightarrow> TenantConnectionInfo \<Rightarrow> unit outcome" where
  "connectorOutcome cfg w tenantInfo =
     (if driver cfg = MYSQL \<or> driver cfg = POSTGRESQL then initialize w (driver cfg) tenantInfo
      else createConnection w tenantInfo)"

definition supportedDriver :: "TenantConfig \<Rightarrow> bool" where
  "supportedDriver cfg = (driver cfg = MYSQL \<or> driver cfg = POSTGRESQL \<or> driver cfg = MONGODB)"

text \<open>The connection object a successful connector call yields when \<open>n\<close> is the next identity.\<close>

definition newConnection :: "TenantConfig \<Rightarrow> nat \<Rightarrow> Connection" where
  "newConnection cfg n =
     (if driver cfg = MYSQL \<or> driver cfg = POSTGRESQL then DataSource n else MongoConnection n)"

text \<open>\<open>n\<close> calls of \<^verbatim>\<open>getTenantConnection\<close> for one key, each ended before the next starts.\<close>

fun acquireTimes ::
  "TenantConfig \<Rightarrow> World \<Rightarrow> string \<Rightarrow> nat \<Rightarrow> State \<Rightarrow> (TenantException + Connection) list \<times> State" where
  "acquireTimes cfg w tenantId 0 s = ([], s)"
| "acquireTimes cfg w tenantId (Suc n) s =
     (case getTenantConnection cfg w tenantId s of
        (r, s1) \<Rightarrow> (case acquireTimes cfg w tenantId n s1 of (rs, s2) \<Rightarrow> (r # rs, s2)))"

section \<open>Overlapping calls\<close>

text \<open>
  JavaScript runs one piece of code at a time; an \<^verbatim>\<open>async\<close> call gives up control at each
  \<^verbatim>\<open>await\<close> and other calls run before it is resumed. A task is a call of
  \<^verbatim>\<open>getTenantConnection\<close> or \<^verbatim>\<open>closeConnection\<close> together with the \<^verbatim>\<open>await\<close> at which
  it is suspended and the local variables it holds there:
  \<^item> \<open>GetTenantConnection\<close>: the call is about to be made;
  \<^item> \<open>AwaitTenantInfo\<close>: suspended at \<^verbatim>\<open>await this.getTenantInfo(tenantId)\<close>, the
    repository's \<^verbatim>\<open>findOne\<close> having been called;
  \<^item> \<open>AwaitConnection\<close>: suspended at \<^verbatim>\<open>await this.createTenantConnection(tenantInfo)\<close>,
    the connector having been called for the new connection object;
  \<^item> \<open>CloseConnection\<close>: the call of \<^verbatim>\<open>closeConnection\<close> is about to be made;
  \<^item> \<open>AwaitClose\<close>: suspended at \<^verbatim>\<open>await connection.destroy()\<close> or
    \<^verbatim>\<open>await connection.close()\<close>;
  \<^item> \<open>Returned\<close>, \<open>Thrown\<close>, \<open>Finished\<close>: the call has ended.
\<close>

datatype Task =
    GetTenantConnection string
  | AwaitTenantInfo string
  | AwaitConnection string TenantConnectionInfo Connection
  | CloseConnection string
  | AwaitClose string Connection
  | Returned Connection
  | Thrown TenantException
  | Finished

text \<open>\<open>resume\<close> runs a task from where it stands to its next \<^verbatim>\<open>await\<close> or to its end.\<close>

fun resume :: "TenantConfig \<Rightarrow> World \<Rightarrow> Task \<Rightarrow> State \<Rightarrow> Task \<times> State" where
  "resume cfg w (GetTenantConnection tenantId) s =
     (if cacheEnabled cfg \<and> map_of (connectionCache s) tenantId \<noteq> None
      then (Returned (the (map_of (connectionCache s) tenantId)), resetConnectionTimer cfg tenantId s)
      else (AwaitTenantInfo tenantId, s\<lparr>trace := trace s @ [FindOneCalled tenantId]\<rparr>))"
| "resume cfg w (AwaitTenantInfo tenantId) s =
     (case findOne w tenantId of
        Rejects e \<Rightarrow>
          (Thrown (TenantNotFoundException tenantId),
           s\<lparr>trace := trace s @
              [LogError (''Failed to get tenant info for '' @ tenantId @ '':'') e]\<rparr>)
      | Resolves None \<Rightarrow> (Thrown (TenantNotFoundException tenantId), s)
      | Resolves (Some tenantInfo) \<Rightarrow>
          if \<not> isActive tenantInfo then (Thrown (TenantInactiveException tenantId), s)
          else if driver cfg = MYSQL \<or> driver cfg = POSTGRESQL then
            (AwaitConnection tenantId tenantInfo (DataSource (nextObject s)),
             s\<lparr>nextObject := Suc (nextObject s),
                trace := trace s @ [InitializeCalled (id' tenantInfo) (nextObject s)]\<rparr>)
          else if driver cfg = MONGODB then
            (AwaitConnection tenantId tenantInfo (MongoConnection (nextObject s)),
             s\<lparr>nextObject := Suc (nextObject s),
                trace := trace s @ [CreateConnectionCalled (id' tenantInfo) (nextObject s)]\<rparr>)
          else
            (Thrown (TenantConnectionException (id' tenantInfo)
                       (Some (''Unsupported driver: '' @ driver cfg))),
             s\<lparr>trace := trace s @
                [LogError (''Failed to create connection for tenant '' @ id' tenantInfo @ '':'')
                   (''Unsupported driver: '' @ driver cfg)]\<rparr>))"
| "resume cfg w (AwaitConnection tenantId tenantInfo connection) s =
     (case (case connection of DataSource _ \<Rightarrow> initialize w (driver cfg) tenantInfo
                             | MongoConnection _ \<Rightarrow> createConnection w tenantInfo) of
        Rejects e \<Rightarrow>
          (Thrown (TenantConnectionException (id' tenantInfo) (Some e)),
           s\<lparr>trace := trace s @
              [LogError (''Failed to create connection for tenant '' @ id' tenantInfo @ '':'') e]\<rparr>)
      | Resolves _ \<Rightarrow>
          if cacheEnabled cfg
          then (Returned connection,
                setConnectionTimer cfg tenantId
                  (s\<lparr>connectionCache := AList.update tenantId connection (connectionCache s)\<rparr>))
          else (Returned connection, s))"
| "resume cfg w (CloseConnection tenantId) s =
     (case map_of (connectionCache s) tenantId of
        None \<Rightarrow> (Finished, s)
      | Some connection \<Rightarrow>
          (AwaitClose tenantId connection, s\<lparr>trace := trace s @ [closeEvent connection]\<rparr>))"
| "resume cfg w (AwaitClose tenantId connection) s =
     (Finished, closeSettled w tenantId connection s)"
| "resume cfg w (Returned connection) s = (Returned connection, s)"
| "resume cfg w (Thrown e) s = (Thrown e, s)"
| "resume cfg w Finished s = (Finished, s)"

text \<open>
  What can happen next: a task is resumed (the promise it awaits has settled), an armed
  timer elapses and its callback calls \<^verbatim>\<open>closeConnection\<close>, or
  \<^verbatim>\<open>closeAllConnections\<close> is called and calls \<^verbatim>\<open>closeConnection\<close> for every key of the
  cache. A call made by a timer or by \<^verbatim>\<open>closeAllConnections\<close> runs to its first
  \<^verbatim>\<open>await\<close> at once and joins the tasks.
\<close>

datatype Action = Resume nat | Fire nat | Shutdown

definition startClose :: "TenantConfig \<Rightarrow> World \<Rightarrow> string \<Rightarrow> Task list \<times> State \<Rightarrow> Task list \<times> State" where
  "startClose cfg w tenantId c =
     (case resume cfg w (CloseConnection tenantId) (snd c) of (t, s') \<Rightarrow> (fst c @ [t], s'))"

fun act :: "TenantConfig \<Rightarrow> World \<Rightarrow> Action \<Rightarrow> Task list \<times> State \<Rightarrow> Task list \<times> State" where
  "act cfg w (Resume i) (ts, s) =
     (if i < length ts
      then (case resume cfg w (ts ! i) s of (t, s') \<Rightarrow> (ts[i := t], s'))
      else (ts, s))"
| "act cfg w (Fire timer) (ts, s) =
     (case find (\<lambda>p. fst p = timer) (pending s) of
        None \<Rightarrow> (ts, s)
      | Some (_, tenantId, _) \<Rightarrow> startClose cfg w tenantId (ts, clearTimeout timer s))"
| "act cfg w Shutdown (ts, s) =
     fold (startClose cfg w) (map fst (connectionCache s)) (ts, s)"

definition run :: "TenantConfig \<Rightarrow> World \<Rightarrow> Action list \<Rightarrow> Task list \<times> State \<Rightarrow> Task list \<times> State" where
  "run cfg w actions c = fold (act cfg w) actions c"

section \<open>Example configurations and worlds\<close>

definition tenant1 :: TenantConnectionInfo where
  "tenant1 = \<lparr>id' = ''t1'', name = ''Tenant one'', host = ''db1'', port = 3306,
              username = ''u'', password = ''p'', database = ''d1'', schema = None,
              isActive = True\<rparr>"

definition cachingConfig :: TenantConfig where
  "cachingConfig = \<lparr>driver = ''mysql'', cacheConnections = Some True, maxConnections = None,
                    connectionTimeout = None, idleTimeout = None\<rparr>"

definition plainConfig :: TenantConfig where
  "plainConfig = cachingConfig\<lparr>cacheConnections := None\<rparr>"

definition sqliteConfig :: TenantConfig where
  "sqliteConfig = cachingConfig\<lparr>driver := ''sqlite''\<rparr>"

text \<open>A world that knows the tenant \<open>t1\<close>, where every connect and every close succeeds.\<close>

definition goodWorld :: World where
  "goodWorld = \<lparr>findOne = (\<lambda>k. Resolves (if k = ''t1'' then Some tenant1 else None)),
                initialize = (\<lambda>_ _. Resolves ()), createConnection = (\<lambda>_. Resolves ()),
                destroy = (\<lambda>_. Resolves ()), close = (\<lambda>_. Resolves ())\<rparr>"


text \<open>Worlds in which the central database, the connector, or every close call fails.\<close>

definition noDirectoryWorld :: World where
  "noDirectoryWorld = goodWorld\<lparr>findOne := (\<lambda>_. Rejects ''central database down'')\<rparr>"

definition noConnectWorld :: World where
  "noConnectWorld = goodWorld\<lparr>initialize := (\<lambda>_ _. Rejects ''ECONNREFUSED'')\<rparr>"

definition noCloseWorld :: World where
  "noCloseWorld = goodWorld\<lparr>destroy := (\<lambda>_. Rejects ''destroy failed'')\<rparr>"

text \<open>
  The configuration for the \<^verbatim>\<open>mongodb\<close> driver, and a world in which the MongoDB server
  of \<open>t1\<close> cannot be reached. The package depends on \<^verbatim>\<open>mongoose ^7.0.0\<close>, whose
  \<^verbatim>\<open>createConnection\<close> returns the connection object at once, opens the connection in the
  background and reports a failure to open only through events of that object; the
  object is no promise, so \<^verbatim>\<open>await mongoose.createConnection(...)\<close> resolves with it
  whether or not the server can be reached.
\<close>

definition mongoConfig :: TenantConfig where
  "mongoConfig = cachingConfig\<lparr>driver := ''mongodb''\<rparr>"

definition unreachableMongoWorld :: World where
  "unreachableMongoWorld = goodWorld\<lparr>createConnection := (\<lambda>_. Resolves ())\<rparr>"

text \<open>
  A world with the three tenants \<open>t1\<close>, \<open>t2\<close>, \<open>t3\<close>, and the same world when the
  connection object \<open>1\<close> refuses to be destroyed.
\<close>

definition threeTenantsWorld :: World where
  "threeTenantsWorld =
     goodWorld\<lparr>findOne := (\<lambda>k. Resolves (if k \<in> set [''t1'', ''t2'', ''t3'']
                                           then Some (tenant1\<lparr>id' := k\<rparr>) else None))\<rparr>"

definition stubbornWorld :: World where
  "stubbornWorld =
     threeTenantsWorld\<lparr>destroy := (\<lambda>n. if n = 1 then Rejects ''destroy failed'' else Resolves ())\<rparr>"

section \<open>Sequences of calls\<close>

text \<open>
  What a user of the service and the runtime can do to it, one ended call after the
  other: call \<^verbatim>\<open>getTenantConnection\<close>, \<^verbatim>\<open>getTenantContext\<close> or
  \<^verbatim>\<open>closeAllConnections\<close>, or let an armed timer elapse. Each step comes with the world
  as it is at that time, so that tenants may appear, be deactivated, or backends fail
  between two calls.
\<close>

datatype Call = Acquire string | AcquireContext string | CloseAll | TimerElapses nat

fun perform :: "TenantConfig \<Rightarrow> World \<times> Call \<Rightarrow> State \<Rightarrow> State" where
  "perform cfg (w, Acquire tenantId) s = snd (getTenantConnection cfg w tenantId s)"
| "perform cfg (w, AcquireContext tenantId) s = snd (getTenantContext cfg w tenantId s)"
| "perform cfg (w, CloseAll) s = closeAllConnections w s"
| "perform cfg (w, TimerElapses timer) s = timerFires w timer s"

definition performAll :: "TenantConfig \<Rightarrow> (World \<times> Call) list \<Rightarrow> State \<Rightarrow> State" where
  "performAll cfg calls s = fold (perform cfg) calls s"

text \<open>
  Every armed timer is the one recorded for its tenant in \<^verbatim>\<open>connectionTimers\<close>, and
  every tenant with a recorded timer has a cached connection.
\<close>

definition timersRecorded :: "State \<Rightarrow> bool" where
  "timersRecorded s =
     (list_all (\<lambda>p. map_of (connectionTimers s) (fst (snd p)) = Some (fst p)) (pending s)
      \<and> list_all (\<lambda>e. map_of (connectionCache s) (fst e) \<noteq> None) (connectionTimers s))"

fun isCloseAll :: "World \<times> Call \<Rightarrow> bool" where
  "isCloseAll (w, CloseAll) = True"
| "isCloseAll (w, _) = False"

text \<open>The events of a trace that are calls closing a connection.\<close>

fun isCloseEvent :: "Event \<Rightarrow> bool" where
  "isCloseEvent (DestroyCalled _) = True"
| "isCloseEvent (CloseCalled _) = True"
| "isCloseEvent _ = False"

section \<open>Properties\<close>

lemma connectorCalls_trace [simp]:
  "connectorCalls (s\<lparr>trace := tr\<rparr>) = length (filter isConnectorCall tr)"
  by (simp add: connectorCalls_def)

subsection \<open>Unknown tenants\<close>

text \<open>
  Claim C10. For a key with no cache entry, \<^verbatim>\<open>getTenantConnection\<close> throws
  \<^verbatim>\<open>TenantNotFoundException\<close> for that key when the tenants repository returns no
  record, and also when the repository lookup itself throws: the error of the lookup is
  not propagated. In both cases the connector is not called and the cache is unchanged.
\<close>

theorem not_found_when_directory_has_no_record:
  assumes "map_of (connectionCache s) tenantId = None"
    and "findOne w tenantId = Resolves None \<or> (\<exists>e. findOne w tenantId = Rejects e)"
  shows "fst (getTenantConnection cfg w tenantId s) = Inl (TenantNotFoundException tenantId)
       \<and> connectorCalls (snd (getTenantConnection cfg w tenantId s)) = connectorCalls s
       \<and> connectionCache (snd (getTenantConnection cfg w tenantId s)) = connectionCache s"
  using assms
  by (auto simp: getTenantConnection_def getTenantInfo_def connectorCalls_def)

theorem not_found_when_directory_has_no_record_witness:
  "map_of (connectionCache initial) ''t1'' = None
   \<and> findOne noDirectoryWorld ''t1'' = Rejects ''central database down''
   \<and> fst (getTenantConnection cachingConfig noDirectoryWorld ''t1'' initial)
       = Inl (TenantNotFoundException ''t1'')"
  using not_found_when_directory_has_no_record [of initial "''t1''" noDirectoryWorld cachingConfig]
  by (simp add: initial_def noDirectoryWorld_def goodWorld_def)

subsection \<open>The paths of \<^verbatim>\<open>getTenantConnection\<close> that reach the connector\<close>

lemma createTenantConnection_rejects:
  assumes "supportedDriver cfg" and "connectorOutcome cfg w tenantInfo = Rejects cause"
  shows "createTenantConnection cfg w tenantInfo s =
     (Inl (TenantConnectionException (id' tenantInfo) (Some cause)),
      s\<lparr>nextObject := Suc (nextObject s),
         trace := trace s @
           [if driver cfg = MYSQL \<or> driver cfg = POSTGRESQL
            then InitializeCalled (id' tenantInfo) (nextObject s)
            else CreateConnectionCalled (id' tenantInfo) (nextObject s),
            LogError (''Failed to create connection for tenant '' @ id' tenantInfo @ '':'') cause]\<rparr>)"
  using assms
  by (auto simp: createTenantConnection_def createSqlConnection_def createMongoConnection_def
      supportedDriver_def connectorOutcome_def Let_def)

lemma createTenantConnection_resolves:
  assumes "supportedDriver cfg" and "connectorOutcome cfg w tenantInfo = Resolves u"
  shows "createTenantConnection cfg w tenantInfo s =
     (Inr (newConnection cfg (nextObject s)),
      s\<lparr>nextObject := Suc (nextObject s),
         trace := trace s @
           [if driver cfg = MYSQL \<or> driver cfg = POSTGRESQL
            then InitializeCalled (id' tenantInfo) (nextObject s)
            else CreateConnectionCalled (id' tenantInfo) (nextObject s)]\<rparr>)"
  using assms
  by (auto simp: createTenantConnection_def createSqlConnection_def createMongoConnection_def
      supportedDriver_def connectorOutcome_def newConnection_def Let_def)

lemma createTenantConnection_unsupported:
  assumes "\<not> supportedDriver cfg"
  shows "createTenantConnection cfg w tenantInfo s =
     (Inl (TenantConnectionException (id' tenantInfo) (Some (''Unsupported driver: '' @ driver cfg))),
      s\<lparr>trace := trace s @
           [LogError (''Failed to create connection for tenant '' @ id' tenantInfo @ '':'')
              (''Unsupported driver: '' @ driver cfg)]\<rparr>)"
  using assms
  by (auto simp: createTenantConnection_def supportedDriver_def)

lemma getTenantInfo_found:
  "findOne w tenantId = Resolves r \<Longrightarrow>
   getTenantInfo w tenantId s = (r, s\<lparr>trace := trace s @ [FindOneCalled tenantId]\<rparr>)"
  by (simp add: getTenantInfo_def)

lemma getTenantConnection_miss_rejects:
  assumes "\<not> cacheEnabled cfg \<or> map_of (connectionCache s) tenantId = None"
    and "findOne w tenantId = Resolves (Some tenantInfo)" and "isActive tenantInfo"
    and "supportedDriver cfg" and "connectorOutcome cfg w tenantInfo = Rejects cause"
  shows "getTenantConnection cfg w tenantId s =
     (Inl (TenantConnectionException (id' tenantInfo) (Some cause)),
      s\<lparr>nextObject := Suc (nextObject s),
         trace := trace s @
           [FindOneCalled tenantId,
            if driver cfg = MYSQL \<or> driver cfg = POSTGRESQL
            then InitializeCalled (id' tenantInfo) (nextObject s)
            else CreateConnectionCalled (id' tenantInfo) (nextObject s),
            LogError (''Failed to create connection for tenant '' @ id' tenantInfo @ '':'') cause]\<rparr>)"
  using assms(1,3)
  by (auto simp: getTenantConnection_def getTenantInfo_found [OF assms(2)]
      createTenantConnection_rejects [OF assms(4,5)])

lemma getTenantConnection_miss_resolves:
  assumes "\<not> cacheEnabled cfg \<or> map_of (connectionCache s) tenantId = None"
    and "findOne w tenantId = Resolves (Some tenantInfo)" and "isActive tenantInfo"
    and "supportedDriver cfg" and "connectorOutcome cfg w tenantInfo = Resolves u"
  shows "getTenantConnection cfg w tenantId s =
     (Inr (newConnection cfg (nextObject s)),
      (if cacheEnabled cfg
       then s\<lparr>connectionCache := AList.update tenantId (newConnection cfg (nextObject s)) (connectionCache s),
               connectionTimers := AList.update tenantId (nextTimer s) (connectionTimers s),
               pending := pending s @ [(nextTimer s, tenantId, orDefault (idleTimeout cfg) DEFAULT_IDLE_TIMEOUT)],
               nextTimer := Suc (nextTimer s),
               nextObject := Suc (nextObject s),
               trace := trace s @
                 [FindOneCalled tenantId,
                  if driver cfg = MYSQL \<or> driver cfg = POSTGRESQL
                  then InitializeCalled (id' tenantInfo) (nextObject s)
                  else CreateConnectionCalled (id' tenantInfo) (nextObject s)]\<rparr>
       else s\<lparr>nextObject := Suc (nextObject s),
               trace := trace s @
                 [FindOneCalled tenantId,
                  if driver cfg = MYSQL \<or> driver cfg = POSTGRESQL
                  then InitializeCalled (id' tenantInfo) (nextObject s)
                  else CreateConnectionCalled (id' tenantInfo) (nextObject s)]\<rparr>))"
  using assms(1,3)
  by (auto simp: getTenantConnection_def getTenantInfo_found [OF assms(2)]
      createTenantConnection_resolves [OF assms(4,5)] setConnectionTimer_def Let_def)

subsection \<open>Failed connection attempts\<close>

text \<open>
  When the call of the connector that \<^verbatim>\<open>getTenantConnection\<close> awaits rejects (no cache
  hit, tenant found and active, supported driver), \<^verbatim>\<open>getTenantConnection\<close> throws
  \<^verbatim>\<open>TenantConnectionException\<close> carrying the message of the cause, and the cache, the
  timer map and the armed timers are unchanged. A following call for the same key calls
  the connector again and, if the connector now resolves (the tenant still being found
  and active), returns the new connection, which is cached when caching is enabled. This
  is what happens when \<^verbatim>\<open>dataSource.initialize()\<close> fails for one of the SQL drivers.
\<close>

theorem connector_failure_is_not_cached:
  assumes "\<not> cacheEnabled cfg \<or> map_of (connectionCache s) tenantId = None"
    and "supportedDriver cfg"
    and "findOne w tenantId = Resolves (Some tenantInfo)" and "isActive tenantInfo"
    and "connectorOutcome cfg w tenantInfo = Rejects cause"
    and "getTenantConnection cfg w tenantId s = (r1, s1)"
    and "findOne w' tenantId = Resolves (Some tenantInfo')" and "isActive tenantInfo'"
    and "connectorOutcome cfg w' tenantInfo' = Resolves ()"
    and "getTenantConnection cfg w' tenantId s1 = (r2, s2)"
  shows "r1 = Inl (TenantConnectionException (id' tenantInfo) (Some cause))
       \<and> connectionCache s1 = connectionCache s
       \<and> connectionTimers s1 = connectionTimers s
       \<and> pending s1 = pending s
       \<and> connectorCalls s1 = Suc (connectorCalls s)
       \<and> r2 = Inr (newConnection cfg (nextObject s1))
       \<and> connectorCalls s2 = Suc (connectorCalls s1)
       \<and> (cacheEnabled cfg \<longrightarrow>
            map_of (connectionCache s2) tenantId = Some (newConnection cfg (nextObject s1)))"
proof -
  note first = getTenantConnection_miss_rejects [OF assms(1,3,4,2,5)]
  from first assms(6) have r1: "r1 = Inl (TenantConnectionException (id' tenantInfo) (Some cause))"
    and s1: "s1 = s\<lparr>nextObject := Suc (nextObject s),
         trace := trace s @
           [FindOneCalled tenantId,
            if driver cfg = MYSQL \<or> driver cfg = POSTGRESQL
            then InitializeCalled (id' tenantInfo) (nextObject s)
            else CreateConnectionCalled (id' tenantInfo) (nextObject s),
            LogError (''Failed to create connection for tenant '' @ id' tenantInfo @ '':'') cause]\<rparr>"
    by simp_all
  have miss1: "\<not> cacheEnabled cfg \<or> map_of (connectionCache s1) tenantId = None"
    using assms(1) by (simp add: s1)
  note second = getTenantConnection_miss_resolves [OF miss1 assms(7,8) assms(2) assms(9)]
  from second assms(10) have r2: "r2 = Inr (newConnection cfg (nextObject s1))"
    and c2: "connectorCalls s2 = Suc (connectorCalls s1)"
    and m2: "cacheEnabled cfg \<longrightarrow>
            map_of (connectionCache s2) tenantId = Some (newConnection cfg (nextObject s1))"
    by (auto simp: connectorCalls_def update_conv' split: if_splits)
  show ?thesis using r1 r2 c2 m2 by (simp add: s1 connectorCalls_def)
qed

theorem connector_failure_is_not_cached_witness:
  "map_of (connectionCache initial) ''t1'' = None
   \<and> fst (getTenantConnection cachingConfig noConnectWorld ''t1'' initial)
        = Inl (TenantConnectionException ''t1'' (Some ''ECONNREFUSED''))
   \<and> fst (getTenantConnection cachingConfig goodWorld ''t1''
             (snd (getTenantConnection cachingConfig noConnectWorld ''t1'' initial)))
        = Inr (DataSource 1)"
  using connector_failure_is_not_cached [of cachingConfig initial "''t1''" noConnectWorld tenant1
      "''ECONNREFUSED''" "fst (getTenantConnection cachingConfig noConnectWorld ''t1'' initial)"
      "snd (getTenantConnection cachingConfig noConnectWorld ''t1'' initial)" goodWorld tenant1
      "fst (getTenantConnection cachingConfig goodWorld ''t1''
             (snd (getTenantConnection cachingConfig noConnectWorld ''t1'' initial)))"
      "snd (getTenantConnection cachingConfig goodWorld ''t1''
             (snd (getTenantConnection cachingConfig noConnectWorld ''t1'' initial)))"]
  by (simp add: initial_def noConnectWorld_def goodWorld_def cachingConfig_def tenant1_def
      supportedDriver_def connectorOutcome_def MYSQL_def newConnection_def
      getTenantConnection_def getTenantInfo_def createTenantConnection_def createSqlConnection_def
      cacheEnabled_def)

text \<open>The two calls of the run below, step by step.\<close>

lemma mongo_acquired:
  "getTenantConnection mongoConfig unreachableMongoWorld ''t1'' initial =
    (Inr (MongoConnection 0),
     \<lparr>connectionCache = [(''t1'', MongoConnection 0)], connectionTimers = [(''t1'', 0)],
      pending = [(0, ''t1'', 300000)], nextTimer = 1, nextObject = 1,
      trace = [FindOneCalled ''t1'', CreateConnectionCalled ''t1'' 0]\<rparr>)"
  by (simp add: unreachableMongoWorld_def goodWorld_def initial_def mongoConfig_def
      cachingConfig_def tenant1_def getTenantConnection_def getTenantInfo_def
      createTenantConnection_def createMongoConnection_def cacheEnabled_def MYSQL_def
      POSTGRESQL_def MONGODB_def setConnectionTimer_def orDefault_def DEFAULT_IDLE_TIMEOUT_def
      Let_def)

lemma mongo_acquired_again:
  "getTenantConnection mongoConfig unreachableMongoWorld ''t1''
     \<lparr>connectionCache = [(''t1'', MongoConnection 0)], connectionTimers = [(''t1'', 0)],
      pending = [(0, ''t1'', 300000)], nextTimer = 1, nextObject = 1,
      trace = [FindOneCalled ''t1'', CreateConnectionCalled ''t1'' 0]\<rparr> =
    (Inr (MongoConnection 0),
     \<lparr>connectionCache = [(''t1'', MongoConnection 0)], connectionTimers = [(''t1'', 1)],
      pending = [(1, ''t1'', 300000)], nextTimer = 2, nextObject = 1,
      trace = [FindOneCalled ''t1'', CreateConnectionCalled ''t1'' 0]\<rparr>)"
  by (simp add: mongoConfig_def cachingConfig_def getTenantConnection_def cacheEnabled_def
      resetConnectionTimer_def setConnectionTimer_def clearTimeout_def orDefault_def
      DEFAULT_IDLE_TIMEOUT_def Let_def)

text \<open>
  Claim C2 does not hold of the code for the \<^verbatim>\<open>mongodb\<close> driver. When the MongoDB
  server of the tenant cannot be reached, the call awaited in
  \<^verbatim>\<open>createMongoConnection\<close> still resolves, so \<^verbatim>\<open>getTenantConnection\<close> throws nothing,
  logs that the connection is established, and caches the connection object that never
  connected; the following call for the same key is a cache hit that returns this object
  and does not call the connector again. The SQL path, which awaits
  \<^verbatim>\<open>dataSource.initialize()\<close>, does report the failure.
\<close>

theorem unreachable_mongodb_backend_is_cached:
  "supportedDriver mongoConfig
   \<and> connectorOutcome mongoConfig unreachableMongoWorld tenant1 = Resolves ()
   \<and> fst (getTenantConnection mongoConfig unreachableMongoWorld ''t1'' initial)
       = Inr (MongoConnection 0)
   \<and> connectionCache (snd (getTenantConnection mongoConfig unreachableMongoWorld ''t1'' initial))
       = [(''t1'', MongoConnection 0)]
   \<and> fst (getTenantConnection mongoConfig unreachableMongoWorld ''t1''
           (snd (getTenantConnection mongoConfig unreachableMongoWorld ''t1'' initial)))
       = Inr (MongoConnection 0)
   \<and> connectorCalls (snd (getTenantConnection mongoConfig unreachableMongoWorld ''t1''
           (snd (getTenantConnection mongoConfig unreachableMongoWorld ''t1'' initial)))) = 1"
proof -
  have "supportedDriver mongoConfig
      \<and> connectorOutcome mongoConfig unreachableMongoWorld tenant1 = Resolves ()"
    by (simp add: supportedDriver_def connectorOutcome_def mongoConfig_def cachingConfig_def
        unreachableMongoWorld_def goodWorld_def MYSQL_def POSTGRESQL_def MONGODB_def)
  then show ?thesis
    unfolding mongo_acquired snd_conv fst_conv mongo_acquired_again
    by (simp add: connectorCalls_def)
qed

subsection \<open>Caching disabled\<close>

text \<open>What the lookups and the connection attempt leave untouched.\<close>

lemma getTenantInfo_frame:
  "connectionCache (snd (getTenantInfo w k s)) = connectionCache s"
  "connectionTimers (snd (getTenantInfo w k s)) = connectionTimers s"
  "pending (snd (getTenantInfo w k s)) = pending s"
  "nextTimer (snd (getTenantInfo w k s)) = nextTimer s"
  "nextObject (snd (getTenantInfo w k s)) = nextObject s"
  "connectorCalls (snd (getTenantInfo w k s)) = connectorCalls s"
  by (simp_all add: getTenantInfo_def connectorCalls_def split: outcome.splits)

lemma createTenantConnection_frame:
  "connectionCache (snd (createTenantConnection cfg w i s)) = connectionCache s"
  "connectionTimers (snd (createTenantConnection cfg w i s)) = connectionTimers s"
  "pending (snd (createTenantConnection cfg w i s)) = pending s"
  "nextTimer (snd (createTenantConnection cfg w i s)) = nextTimer s"
  by (simp_all add: createTenantConnection_def createSqlConnection_def createMongoConnection_def
      Let_def split: outcome.splits sum.splits prod.splits)

lemma getTenantConnection_uncached_frame:
  assumes "\<not> cacheEnabled cfg"
  shows "connectionCache (snd (getTenantConnection cfg w k s)) = connectionCache s"
    and "connectionTimers (snd (getTenantConnection cfg w k s)) = connectionTimers s"
    and "pending (snd (getTenantConnection cfg w k s)) = pending s"
proof -
  obtain i s1 where a: "getTenantInfo w k s = (i, s1)" by (cases "getTenantInfo w k s")
  have f1: "connectionCache s1 = connectionCache s" "connectionTimers s1 = connectionTimers s"
    "pending s1 = pending s"
    using getTenantInfo_frame [of w k s] a by simp_all
  show "connectionCache (snd (getTenantConnection cfg w k s)) = connectionCache s"
    and "connectionTimers (snd (getTenantConnection cfg w k s)) = connectionTimers s"
    and "pending (snd (getTenantConnection cfg w k s)) = pending s"
  proof (atomize (full), cases i)
    case None
    then show "connectionCache (snd (getTenantConnection cfg w k s)) = connectionCache s \<and>
      connectionTimers (snd (getTenantConnection cfg w k s)) = connectionTimers s \<and>
      pending (snd (getTenantConnection cfg w k s)) = pending s"
      using assms a f1 by (simp add: getTenantConnection_def)
  next
    case (Some ti)
    obtain r s2 where b: "createTenantConnection cfg w ti s1 = (r, s2)"
      by (cases "createTenantConnection cfg w ti s1")
    have f2: "connectionCache s2 = connectionCache s1" "connectionTimers s2 = connectionTimers s1"
      "pending s2 = pending s1"
      using createTenantConnection_frame [of cfg w ti s1] b by simp_all
    show "connectionCache (snd (getTenantConnection cfg w k s)) = connectionCache s \<and>
      connectionTimers (snd (getTenantConnection cfg w k s)) = connectionTimers s \<and>
      pending (snd (getTenantConnection cfg w k s)) = pending s"
      using assms a b f1 f2 Some by (simp add: getTenantConnection_def split: sum.splits)
  qed
qed

lemma getTenantContext_uncached_cache:
  assumes "\<not> cacheEnabled cfg"
  shows "connectionCache (snd (getTenantContext cfg w k s)) = connectionCache s"
proof -
  obtain i s1 where a: "getTenantInfo w k s = (i, s1)" by (cases "getTenantInfo w k s")
  have f1: "connectionCache s1 = connectionCache s"
    using getTenantInfo_frame(1) [of w k s] a by simp
  show ?thesis
  proof (cases i)
    case None
    then show ?thesis using a f1 by (simp add: getTenantContext_def)
  next
    case (Some ti)
    obtain r s2 where b: "getTenantConnection cfg w k s1 = (r, s2)"
      by (cases "getTenantConnection cfg w k s1")
    have "connectionCache s2 = connectionCache s1"
      using getTenantConnection_uncached_frame(1) [OF assms, of w k s1] b by simp
    then show ?thesis using a b f1 Some by (simp add: getTenantContext_def split: sum.splits)
  qed
qed

lemma closeConnection_empty_cache:
  "connectionCache s = [] \<Longrightarrow> connectionCache (closeConnection w k s) = []"
  by (simp add: closeConnection_def)

lemma perform_uncached_empty:
  assumes "\<not> cacheEnabled cfg" and "connectionCache s = []"
  shows "connectionCache (perform cfg c s) = []"
proof (cases c)
  case (Pair w call)
  show ?thesis
  proof (cases call)
    case (Acquire k)
    then show ?thesis using Pair assms getTenantConnection_uncached_frame(1) [OF assms(1)] by simp
  next
    case (AcquireContext k)
    then show ?thesis using Pair assms getTenantContext_uncached_cache [OF assms(1)] by simp
  next
    case CloseAll
    then show ?thesis using Pair assms by (simp add: closeAllConnections_def)
  next
    case (TimerElapses t)
    then show ?thesis using Pair assms
      by (simp add: timerFires_def clearTimeout_def closeConnection_empty_cache
          split: option.splits prod.splits)
  qed
qed

lemma performAll_uncached_empty:
  assumes "\<not> cacheEnabled cfg"
  shows "connectionCache s = [] \<Longrightarrow> connectionCache (performAll cfg calls s) = []"
  unfolding performAll_def
  by (induction calls arbitrary: s) (simp_all add: perform_uncached_empty [OF assms])

text \<open>
  Claim C8. With caching disabled (\<^verbatim>\<open>cacheConnections\<close> false or undefined) a call of
  \<^verbatim>\<open>getTenantConnection\<close> never writes the cache, the timer map or the armed timers;
  two calls for the same key one after the other (tenant found and active, connector
  resolving) each call the connector and return two different new connection objects;
  and after any sequence of calls and timer events from the initial state
  \<^verbatim>\<open>getConnectionStats\<close> reports no connection.
\<close>

theorem caching_disabled_bypasses_cache:
  assumes "\<not> cacheEnabled cfg"
  shows "connectionCache (snd (getTenantConnection cfg w tenantId s)) = connectionCache s
       \<and> connectionTimers (snd (getTenantConnection cfg w tenantId s)) = connectionTimers s
       \<and> pending (snd (getTenantConnection cfg w tenantId s)) = pending s
       \<and> (\<forall>tenantInfo r1 s1 r2 s2.
            supportedDriver cfg \<and> findOne w tenantId = Resolves (Some tenantInfo)
            \<and> isActive tenantInfo \<and> connectorOutcome cfg w tenantInfo = Resolves ()
            \<and> getTenantConnection cfg w tenantId s = (r1, s1)
            \<and> getTenantConnection cfg w tenantId s1 = (r2, s2)
            \<longrightarrow> r1 = Inr (newConnection cfg (nextObject s))
              \<and> r2 = Inr (newConnection cfg (Suc (nextObject s)))
              \<and> r1 \<noteq> r2
              \<and> connectorCalls s1 = Suc (connectorCalls s)
              \<and> connectorCalls s2 = Suc (Suc (connectorCalls s)))
       \<and> totalConnections (getConnectionStats (performAll cfg calls initial)) = 0
       \<and> activeTenants (getConnectionStats (performAll cfg calls initial)) = []"
proof -
  have frame: "connectionCache (snd (getTenantConnection cfg w tenantId s)) = connectionCache s
       \<and> connectionTimers (snd (getTenantConnection cfg w tenantId s)) = connectionTimers s
       \<and> pending (snd (getTenantConnection cfg w tenantId s)) = pending s"
    using getTenantConnection_uncached_frame [OF assms] by simp
  have twice: "r1 = Inr (newConnection cfg (nextObject s))
              \<and> r2 = Inr (newConnection cfg (Suc (nextObject s)))
              \<and> r1 \<noteq> r2
              \<and> connectorCalls s1 = Suc (connectorCalls s)
              \<and> connectorCalls s2 = Suc (Suc (connectorCalls s))"
    if h: "supportedDriver cfg" "findOne w tenantId = Resolves (Some tenantInfo)"
      "isActive tenantInfo" "connectorOutcome cfg w tenantInfo = Resolves ()"
      "getTenantConnection cfg w tenantId s = (r1, s1)"
      "getTenantConnection cfg w tenantId s1 = (r2, s2)"
    for tenantInfo r1 s1 r2 s2
  proof -
    have m: "\<not> cacheEnabled cfg \<or> map_of (connectionCache t) tenantId = None" for t
      using assms by simp
    from getTenantConnection_miss_resolves [OF m h(2,3,1,4), of s] h(5) assms
    have r1: "r1 = Inr (newConnection cfg (nextObject s))"
      and n1: "nextObject s1 = Suc (nextObject s)"
      and c1: "connectorCalls s1 = Suc (connectorCalls s)"
      by (auto simp: connectorCalls_def)
    from getTenantConnection_miss_resolves [OF m h(2,3,1,4), of s1] h(6) assms
    have r2: "r2 = Inr (newConnection cfg (nextObject s1))"
      and c2: "connectorCalls s2 = Suc (connectorCalls s1)"
      by (auto simp: connectorCalls_def)
    show ?thesis using r1 r2 n1 c1 c2 by (simp add: newConnection_def)
  qed
  have "connectionCache (performAll cfg calls initial) = []"
    using performAll_uncached_empty [OF assms, of initial calls] by (simp add: initial_def)
  then have stats: "totalConnections (getConnectionStats (performAll cfg calls initial)) = 0
       \<and> activeTenants (getConnectionStats (performAll cfg calls initial)) = []"
    by (simp add: getConnectionStats_def)
  show ?thesis using frame twice stats by blast
qed

theorem caching_disabled_bypasses_cache_witness:
  "\<not> cacheEnabled plainConfig
   \<and> fst (getTenantConnection plainConfig goodWorld ''t1'' initial) = Inr (DataSource 0)
   \<and> fst (getTenantConnection plainConfig goodWorld ''t1''
            (snd (getTenantConnection plainConfig goodWorld ''t1'' initial))) = Inr (DataSource 1)
   \<and> totalConnections (getConnectionStats
        (performAll plainConfig [(goodWorld, Acquire ''t1''), (goodWorld, Acquire ''t1'')] initial)) = 0"
proof -
  have a: "\<not> cacheEnabled plainConfig"
    by (simp add: cacheEnabled_def plainConfig_def cachingConfig_def)
  have b: "supportedDriver plainConfig \<and> findOne goodWorld ''t1'' = Resolves (Some tenant1)
      \<and> isActive tenant1 \<and> connectorOutcome plainConfig goodWorld tenant1 = Resolves ()"
    by (simp add: supportedDriver_def plainConfig_def cachingConfig_def goodWorld_def tenant1_def
        connectorOutcome_def MYSQL_def)
  have n: "newConnection plainConfig n = DataSource n" for n
    by (simp add: newConnection_def plainConfig_def cachingConfig_def MYSQL_def)
  note t = caching_disabled_bypasses_cache [OF a, of goodWorld "''t1''" initial
      "[(goodWorld, Acquire ''t1''), (goodWorld, Acquire ''t1'')]"]
  from t b have
    "fst (getTenantConnection plainConfig goodWorld ''t1'' initial) = Inr (newConnection plainConfig (nextObject initial))"
    "fst (getTenantConnection plainConfig goodWorld ''t1''
            (snd (getTenantConnection plainConfig goodWorld ''t1'' initial)))
       = Inr (newConnection plainConfig (Suc (nextObject initial)))"
    by (metis prod.collapse)+
  then show ?thesis using a t by (simp add: n initial_def)
qed

subsection \<open>Unsupported drivers\<close>

text \<open>
  Claim C9, as amended. When \<^verbatim>\<open>getTenantConnection\<close> gets as far as creating a
  connection (no cache hit, tenant found and active) and the configured driver is none of
  \<^verbatim>\<open>mysql\<close>, \<^verbatim>\<open>postgresql\<close>, \<^verbatim>\<open>mongodb\<close>, the call throws
  \<^verbatim>\<open>TenantConnectionException\<close> for the tenant, wrapping the message
  \<^verbatim>\<open>Unsupported driver: <driver>\<close>, without calling a connector and without touching the
  cache.
\<close>

theorem unsupported_driver_surfaces_as_connection_exception:
  assumes "\<not> supportedDriver cfg"
    and "\<not> cacheEnabled cfg \<or> map_of (connectionCache s) tenantId = None"
    and "findOne w tenantId = Resolves (Some tenantInfo)" and "isActive tenantInfo"
  shows "fst (getTenantConnection cfg w tenantId s)
           = Inl (TenantConnectionException (id' tenantInfo)
                    (Some (''Unsupported driver: '' @ driver cfg)))
       \<and> connectorCalls (snd (getTenantConnection cfg w tenantId s)) = connectorCalls s
       \<and> connectionCache (snd (getTenantConnection cfg w tenantId s)) = connectionCache s"
  using assms(2,4)
  by (auto simp: getTenantConnection_def getTenantInfo_found [OF assms(3)]
      createTenantConnection_unsupported [OF assms(1)] connectorCalls_def)

theorem unsupported_driver_surfaces_as_connection_exception_witness:
  "\<not> supportedDriver sqliteConfig
   \<and> map_of (connectionCache initial) ''t1'' = None
   \<and> findOne goodWorld ''t1'' = Resolves (Some tenant1) \<and> isActive tenant1
   \<and> fst (getTenantConnection sqliteConfig goodWorld ''t1'' initial)
        = Inl (TenantConnectionException ''t1'' (Some ''Unsupported driver: sqlite''))"
  using unsupported_driver_surfaces_as_connection_exception
          [of sqliteConfig initial "''t1''" goodWorld tenant1]
  by (simp add: supportedDriver_def sqliteConfig_def cachingConfig_def MYSQL_def POSTGRESQL_def
      MONGODB_def initial_def goodWorld_def tenant1_def)

text \<open>
  The claim as first stated fails: with the driver \<^verbatim>\<open>sqlite\<close> the exception thrown is not
  \<^verbatim>\<open>UnsupportedDatabaseDriverException\<close>, which no code path of the service throws: the
  \<^verbatim>\<open>Error\<close> of the \<^verbatim>\<open>default\<close> branch is caught by the \<^verbatim>\<open>catch\<close> around the
  \<^verbatim>\<open>switch\<close>.
\<close>

theorem unsupported_driver_counterexample:
  "\<not> supportedDriver sqliteConfig
   \<and> fst (getTenantConnection sqliteConfig goodWorld ''t1'' initial)
        \<noteq> Inl (UnsupportedDatabaseDriverException (driver sqliteConfig))"
  by (simp add: supportedDriver_def sqliteConfig_def cachingConfig_def MYSQL_def POSTGRESQL_def
      MONGODB_def initial_def goodWorld_def tenant1_def getTenantConnection_def getTenantInfo_def
      createTenantConnection_def cacheEnabled_def)

subsection \<open>Inactive tenants\<close>

lemma getTenantConnection_hit:
  assumes "cacheEnabled cfg" and "map_of (connectionCache s) tenantId = Some c"
  shows "getTenantConnection cfg w tenantId s = (Inr c, resetConnectionTimer cfg tenantId s)"
  using assms by (simp add: getTenantConnection_def)

lemma resetConnectionTimer_frame:
  "connectionCache (resetConnectionTimer cfg k s) = connectionCache s"
  "trace (resetConnectionTimer cfg k s) = trace s"
  "nextObject (resetConnectionTimer cfg k s) = nextObject s"
  by (simp_all add: resetConnectionTimer_def setConnectionTimer_def clearTimeout_def Let_def
      split: option.splits)





subsection \<open>Example runs\<close>

text \<open>
  The states reached from the initial state by one call for \<open>t1\<close>, by one call for each
  of three tenants, and by two calls for \<open>t1\<close> that overlap: both are made, both are
  resumed with the tenant record, and both are resumed with their connection, before
  either has returned.
\<close>

lemma one_acquired:
  "getTenantConnection cachingConfig goodWorld ''t1'' initial =
    (Inr (DataSource 0),
     \<lparr>connectionCache = [(''t1'', DataSource 0)], connectionTimers = [(''t1'', 0)],
      pending = [(0, ''t1'', 300000)], nextTimer = 1, nextObject = 1,
      trace = [FindOneCalled ''t1'', InitializeCalled ''t1'' 0]\<rparr>)"
  by (simp add: goodWorld_def initial_def cachingConfig_def tenant1_def
      getTenantConnection_def getTenantInfo_def createTenantConnection_def
      createSqlConnection_def cacheEnabled_def MYSQL_def setConnectionTimer_def
      orDefault_def DEFAULT_IDLE_TIMEOUT_def Let_def)

lemma three_acquired:
  "performAll cachingConfig
     [(threeTenantsWorld, Acquire ''t1''), (threeTenantsWorld, Acquire ''t2''),
      (threeTenantsWorld, Acquire ''t3'')] initial =
   \<lparr>connectionCache = [(''t1'', DataSource 0), (''t2'', DataSource 1), (''t3'', DataSource 2)],
    connectionTimers = [(''t1'', 0), (''t2'', 1), (''t3'', 2)],
    pending = [(0, ''t1'', 300000), (1, ''t2'', 300000), (2, ''t3'', 300000)],
    nextTimer = 3, nextObject = 3,
    trace = [FindOneCalled ''t1'', InitializeCalled ''t1'' 0, FindOneCalled ''t2'',
             InitializeCalled ''t2'' 1, FindOneCalled ''t3'', InitializeCalled ''t3'' 2]\<rparr>"
  by (simp add: performAll_def threeTenantsWorld_def goodWorld_def initial_def cachingConfig_def
      tenant1_def getTenantConnection_def getTenantInfo_def createTenantConnection_def
      createSqlConnection_def cacheEnabled_def MYSQL_def setConnectionTimer_def
      orDefault_def DEFAULT_IDLE_TIMEOUT_def Let_def)

lemma overlapping_acquires:
  "run cachingConfig goodWorld
     [Resume 0, Resume 1, Resume 0, Resume 1, Resume 0, Resume 1]
     ([GetTenantConnection ''t1'', GetTenantConnection ''t1''], initial)
   = ([Returned (DataSource 0), Returned (DataSource 1)],
      \<lparr>connectionCache = [(''t1'', DataSource 1)], connectionTimers = [(''t1'', 1)],
       pending = [(0, ''t1'', 300000), (1, ''t1'', 300000)], nextTimer = 2, nextObject = 2,
       trace = [FindOneCalled ''t1'', FindOneCalled ''t1'',
                InitializeCalled ''t1'' 0, InitializeCalled ''t1'' 1]\<rparr>)"
  by (simp add: run_def initial_def cachingConfig_def goodWorld_def tenant1_def cacheEnabled_def
      MYSQL_def setConnectionTimer_def orDefault_def DEFAULT_IDLE_TIMEOUT_def Let_def)

subsection \<open>The two embeddings agree\<close>

text \<open>
  A call of \<^verbatim>\<open>getTenantConnection\<close> or \<^verbatim>\<open>closeConnection\<close> that is resumed at each
  of its \<^verbatim>\<open>await\<close>s before anything else happens does what the functions of the first
  embedding say.
\<close>

lemma getTenantConnection_as_task:
  "(case resume cfg w (GetTenantConnection tenantId) s of
      (t1, s1) \<Rightarrow> (case resume cfg w t1 s1 of (t2, s2) \<Rightarrow> resume cfg w t2 s2))
   = (case getTenantConnection cfg w tenantId s of
        (Inl e, s') \<Rightarrow> (Thrown e, s')
      | (Inr c, s') \<Rightarrow> (Returned c, s'))"
  by (auto simp: getTenantConnection_def getTenantInfo_def createTenantConnection_def
      createSqlConnection_def createMongoConnection_def Let_def
      split: outcome.splits option.splits)

lemma closeConnection_as_task:
  "(case resume cfg w (CloseConnection tenantId) s of (t, s1) \<Rightarrow> resume cfg w t s1)
     = (Finished, closeConnection w tenantId s)"
  by (simp add: closeConnection_def split: option.splits)

text \<open>
  The same holds of a shutdown, when the calls it starts are resumed in the order in which
  they were started, and of a timer that elapses and whose call is resumed at once.
\<close>

lemma startClose_pair:
  "startClose cfg w k (ts, s) =
     (case map_of (connectionCache s) k of
        None \<Rightarrow> (ts @ [Finished], s)
      | Some c \<Rightarrow> (ts @ [AwaitClose k c], s\<lparr>trace := trace s @ [closeEvent c]\<rparr>))"
  by (simp add: startClose_def split: option.splits)

lemma fold_startClose:
  "fold (startClose cfg w) ks (ts, s) =
     (ts @ map (\<lambda>k. case map_of (connectionCache s) k of
                      None \<Rightarrow> Finished | Some c \<Rightarrow> AwaitClose k c) ks,
      s\<lparr>trace := trace s @
          map (\<lambda>p. closeEvent (snd p))
            (concat (map (\<lambda>k. case map_of (connectionCache s) k of
                                None \<Rightarrow> [] | Some c \<Rightarrow> [(k, c)]) ks))\<rparr>)"
proof (induction ks arbitrary: ts s)
  case Nil
  then show ?case by simp
next
  case (Cons k ks)
  show ?case
    by (cases "map_of (connectionCache s) k") (simp_all add: startClose_pair Cons.IH)
qed

lemma resume_started_closes:
  "fold (act cfg w) (map Resume [length pre..<length pre + length ks])
     (pre @ map (\<lambda>k. case map_of xs k of None \<Rightarrow> Finished | Some c \<Rightarrow> AwaitClose k c) ks, s)
   = (pre @ replicate (length ks) Finished,
      fold (\<lambda>p. closeSettled w (fst p) (snd p))
        (concat (map (\<lambda>k. case map_of xs k of None \<Rightarrow> [] | Some c \<Rightarrow> [(k, c)]) ks)) s)"
proof (induction ks arbitrary: pre s)
  case Nil
  then show ?case by simp
next
  case (Cons k ks)
  let ?f = "\<lambda>k. case map_of xs k of None \<Rightarrow> Finished | Some c \<Rightarrow> AwaitClose k c"
  have idx: "[length pre..<length pre + length (k # ks)]
      = length pre # [length (pre @ [Finished])..<length (pre @ [Finished]) + length ks]"
    by (subst upt_rec) simp
  have step: "act cfg w (Resume (length pre)) (pre @ map ?f (k # ks), s)
      = ((pre @ [Finished]) @ map ?f ks,
         fold (\<lambda>p. closeSettled w (fst p) (snd p))
           (case map_of xs k of None \<Rightarrow> [] | Some c \<Rightarrow> [(k, c)]) s)"
    by (cases "map_of xs k") simp_all
  let ?s' = "fold (\<lambda>p. closeSettled w (fst p) (snd p))
           (case map_of xs k of None \<Rightarrow> [] | Some c \<Rightarrow> [(k, c)]) s"
  have "fold (act cfg w) (map Resume [length pre..<length pre + length (k # ks)])
          (pre @ map ?f (k # ks), s)
      = fold (act cfg w)
          (map Resume [length (pre @ [Finished])..<length (pre @ [Finished]) + length ks])
          (act cfg w (Resume (length pre)) (pre @ map ?f (k # ks), s))"
    by (simp only: idx list.map fold_simps o_apply)
  also have "\<dots> = fold (act cfg w)
          (map Resume [length (pre @ [Finished])..<length (pre @ [Finished]) + length ks])
          ((pre @ [Finished]) @ map ?f ks, ?s')"
    by (simp only: step)
  also have "\<dots> = ((pre @ [Finished]) @ replicate (length ks) Finished,
      fold (\<lambda>p. closeSettled w (fst p) (snd p))
        (concat (map (\<lambda>k. case map_of xs k of None \<Rightarrow> [] | Some c \<Rightarrow> [(k, c)]) ks)) ?s')"
    by (rule Cons.IH)
  also have "\<dots> = (pre @ replicate (length (k # ks)) Finished,
      fold (\<lambda>p. closeSettled w (fst p) (snd p))
        (concat (map (\<lambda>k. case map_of xs k of None \<Rightarrow> [] | Some c \<Rightarrow> [(k, c)]) (k # ks))) s)"
    by (simp split: option.splits)
  finally show ?case .
qed

lemma closeAllConnections_as_tasks:
  "run cfg w (Shutdown # map Resume [0..<length (connectionCache s)]) ([], s)
     = (replicate (length (connectionCache s)) Finished, closeAllConnections w s)"
  using resume_started_closes [of cfg w "[]" "map fst (connectionCache s)" "connectionCache s"]
  by (simp add: run_def fold_startClose closeAllConnections_def Let_def)

lemma timerFires_as_tasks:
  "snd (run cfg w [Fire timer, Resume (length ts)] (ts, s)) = timerFires w timer s"
  by (simp add: run_def timerFires_def startClose_def closeConnection_def nth_append
      split: option.splits prod.splits)

subsection \<open>Closing one connection\<close>

lemma closeConnection_none:
  "map_of (connectionCache s) tenantId = None \<Longrightarrow> closeConnection w tenantId s = s"
  by (simp add: closeConnection_def)

lemma closeConnection_resolves:
  assumes "map_of (connectionCache s) tenantId = Some c" and "closeCall w c = Resolves u"
  shows "closeConnection w tenantId s =
     s\<lparr>connectionCache := AList.delete tenantId (connectionCache s),
        connectionTimers := AList.delete tenantId (connectionTimers s),
        trace := trace s @ [closeEvent c]\<rparr>"
  using assms by (simp add: closeConnection_def closeSettled_def)

lemma closeConnection_rejects:
  assumes "map_of (connectionCache s) tenantId = Some c" and "closeCall w c = Rejects e"
  shows "closeConnection w tenantId s =
     s\<lparr>trace := trace s @
        [closeEvent c, LogError (''Failed to close connection for tenant '' @ tenantId @ '':'') e]\<rparr>"
  using assms by (simp add: closeConnection_def closeSettled_def)

text \<open>
  Claim C3, as amended. \<^verbatim>\<open>closeConnection\<close> never throws: without an entry for the key
  it changes nothing; when the close call of the cached connection succeeds, the entry and
  its recorded timer are removed; when the close call fails, the error is only logged and
  the entry stays in the cache. In the embedding with explicit \<^verbatim>\<open>await\<close>s the call
  never ends in \<open>Thrown\<close>.
\<close>

theorem closeConnection_never_throws_keeps_entry_on_failure:
  "(map_of (connectionCache s) tenantId = None \<longrightarrow> closeConnection w tenantId s = s)
   \<and> (\<forall>c. map_of (connectionCache s) tenantId = Some c \<and> closeCall w c = Resolves () \<longrightarrow>
          map_of (connectionCache (closeConnection w tenantId s)) tenantId = None
        \<and> map_of (connectionTimers (closeConnection w tenantId s)) tenantId = None
        \<and> trace (closeConnection w tenantId s) = trace s @ [closeEvent c])
   \<and> (\<forall>c e. map_of (connectionCache s) tenantId = Some c \<and> closeCall w c = Rejects e \<longrightarrow>
          closeConnection w tenantId s =
            s\<lparr>trace := trace s @
               [closeEvent c,
                LogError (''Failed to close connection for tenant '' @ tenantId @ '':'') e]\<rparr>)
   \<and> (\<forall>e. fst (resume cfg w (CloseConnection tenantId) s) \<noteq> Thrown e)
   \<and> (\<forall>c e. fst (resume cfg w (AwaitClose tenantId c) s) \<noteq> Thrown e)"
  by (auto simp: closeConnection_none closeConnection_resolves closeConnection_rejects
      delete_conv' closeSettled_def split: option.splits outcome.splits)

theorem closeConnection_never_throws_keeps_entry_on_failure_witness:
  "map_of (connectionCache (snd (getTenantConnection cachingConfig goodWorld ''t1'' initial))) ''t1''
     = Some (DataSource 0)
   \<and> closeCall noCloseWorld (DataSource 0) = Rejects ''destroy failed''
   \<and> closeCall goodWorld (DataSource 0) = Resolves ()
   \<and> trace (closeConnection noCloseWorld ''t1''
        (snd (getTenantConnection cachingConfig goodWorld ''t1'' initial)))
      = [FindOneCalled ''t1'', InitializeCalled ''t1'' 0, DestroyCalled 0,
         LogError ''Failed to close connection for tenant t1:'' ''destroy failed'']
   \<and> map_of (connectionCache (closeConnection goodWorld ''t1''
        (snd (getTenantConnection cachingConfig goodWorld ''t1'' initial)))) ''t1'' = None"
proof -
  let ?s = "snd (getTenantConnection cachingConfig goodWorld ''t1'' initial)"
  have s: "?s = \<lparr>connectionCache = [(''t1'', DataSource 0)], connectionTimers = [(''t1'', 0)],
      pending = [(0, ''t1'', 300000)], nextTimer = 1, nextObject = 1,
      trace = [FindOneCalled ''t1'', InitializeCalled ''t1'' 0]\<rparr>"
    by (simp add: one_acquired)
  have c: "closeCall noCloseWorld (DataSource 0) = Rejects ''destroy failed''"
    "closeCall goodWorld (DataSource 0) = Resolves ()"
    by (simp_all add: closeCall_def noCloseWorld_def goodWorld_def)
  show ?thesis
    using closeConnection_never_throws_keeps_entry_on_failure [of ?s "''t1''" noCloseWorld cachingConfig]
      closeConnection_never_throws_keeps_entry_on_failure [of ?s "''t1''" goodWorld cachingConfig]
    by (simp add: s c closeEvent_def)
qed

text \<open>
  The claim as first stated fails: a connection whose \<^verbatim>\<open>destroy\<close> rejects is still
  cached after \<^verbatim>\<open>closeConnection\<close>, because the two \<^verbatim>\<open>delete\<close> calls are skipped.
\<close>

theorem closeConnection_counterexample:
  "closeCall noCloseWorld (DataSource 0) = Rejects ''destroy failed''
   \<and> map_of (connectionCache (closeConnection noCloseWorld ''t1''
        (snd (getTenantConnection cachingConfig goodWorld ''t1'' initial)))) ''t1''
     = Some (DataSource 0)
   \<and> totalConnections (getConnectionStats (closeConnection noCloseWorld ''t1''
        (snd (getTenantConnection cachingConfig goodWorld ''t1'' initial)))) = 1"
  by (simp add: goodWorld_def noCloseWorld_def initial_def cachingConfig_def tenant1_def
      getTenantConnection_def getTenantInfo_def createTenantConnection_def
      createSqlConnection_def cacheEnabled_def MYSQL_def setConnectionTimer_def
      closeConnection_def closeSettled_def closeCall_def closeEvent_def getConnectionStats_def Let_def)

subsection \<open>Shutdown\<close>

lemma closeSettled_pending [simp]: "pending (closeSettled w k c s) = pending s"
  by (simp add: closeSettled_def split: outcome.splits)

lemma closeConnection_pending [simp]: "pending (closeConnection w k s) = pending s"
  by (simp add: closeConnection_def split: option.splits)

lemma fold_closeSettled_pending:
  "pending (fold (\<lambda>p. closeSettled w (fst p) (snd p)) ps s) = pending s"
  by (induction ps arbitrary: s) simp_all

lemma closeAllConnections_pending: "pending (closeAllConnections w s) = pending s"
  by (simp add: closeAllConnections_def Let_def fold_closeSettled_pending)

lemma closeSettled_cache:
  "connectionCache (closeSettled w k c s) =
     (if closeCall w c = Resolves () then filter (\<lambda>q. fst q \<noteq> k) (connectionCache s)
      else connectionCache s)"
  by (auto simp: closeSettled_def AList.delete_eq case_prod_beta split: outcome.splits
      intro: filter_cong)

lemma fold_closeSettled_cache:
  "connectionCache (fold (\<lambda>p. closeSettled w (fst p) (snd p)) ps s) =
     filter (\<lambda>q. \<not> (\<exists>p \<in> set ps. fst p = fst q \<and> closeCall w (snd p) = Resolves ()))
       (connectionCache s)"
proof (induction ps arbitrary: s)
  case Nil
  then show ?case by simp
next
  case (Cons p ps)
  show ?case
    by (simp add: Cons.IH closeSettled_cache) (auto intro: filter_cong)
qed

lemma closeSettled_close_events [simp]:
  "filter isCloseEvent (trace (closeSettled w k c s)) = filter isCloseEvent (trace s)"
  by (simp add: closeSettled_def split: outcome.splits)

lemma fold_closeSettled_close_events:
  "filter isCloseEvent (trace (fold (\<lambda>p. closeSettled w (fst p) (snd p)) ps s))
     = filter isCloseEvent (trace s)"
  by (induction ps arbitrary: s) simp_all

lemma isCloseEvent_closeEvent [simp]: "isCloseEvent (closeEvent c)"
  by (cases c) (simp_all add: closeEvent_def)

lemma closing_all_entries:
  "distinct (map fst xs) \<Longrightarrow>
   concat (map (\<lambda>p. case map_of xs (fst p) of None \<Rightarrow> [] | Some c \<Rightarrow> [(fst p, c)]) xs) = xs"
proof (induction xs)
  case Nil
  then show ?case by simp
next
  case (Cons x xs)
  obtain a b where x: "x = (a, b)" by (cases x)
  have ne: "fst p \<noteq> a" if "p \<in> set xs" for p
    using that Cons.prems x by auto
  show ?case using Cons x by (simp add: ne cong: map_cong)
qed

text \<open>
  Claim C6, as amended. \<^verbatim>\<open>closeAllConnections\<close> makes exactly one close call for every
  entry of the cache, in key order, and removes every entry whose close call succeeds; an
  entry whose close call fails stays. So if every close succeeds,
  \<^verbatim>\<open>getConnectionStats\<close> reports no connection afterwards.
\<close>

theorem closeAllConnections_closes_each_entry_once:
  assumes "distinct (map fst (connectionCache s))"
  shows "filter isCloseEvent (trace (closeAllConnections w s)) =
           filter isCloseEvent (trace s) @ map (\<lambda>p. closeEvent (snd p)) (connectionCache s)
       \<and> connectionCache (closeAllConnections w s) =
           filter (\<lambda>p. closeCall w (snd p) \<noteq> Resolves ()) (connectionCache s)
       \<and> ((\<forall>p \<in> set (connectionCache s). closeCall w (snd p) = Resolves ()) \<longrightarrow>
            totalConnections (getConnectionStats (closeAllConnections w s)) = 0
          \<and> activeTenants (getConnectionStats (closeAllConnections w s)) = [])"
proof -
  note closing = closing_all_entries [OF assms]
  have ev: "filter isCloseEvent (trace (closeAllConnections w s)) =
           filter isCloseEvent (trace s) @ map (\<lambda>p. closeEvent (snd p)) (connectionCache s)"
    by (simp add: closeAllConnections_def Let_def comp_def closing
        fold_closeSettled_close_events filter_id_conv)
  have only: "q = p" if "p \<in> set (connectionCache s)" "q \<in> set (connectionCache s)" "fst p = fst q"
    for p q
    using that assms by (metis eq_key_imp_eq_value prod.collapse)
  have "connectionCache (closeAllConnections w s) =
      filter (\<lambda>q. \<not> (\<exists>p \<in> set (connectionCache s). fst p = fst q \<and> closeCall w (snd p) = Resolves ()))
        (connectionCache s)"
    by (simp add: closeAllConnections_def Let_def comp_def closing fold_closeSettled_cache)
  also have "\<dots> = filter (\<lambda>p. closeCall w (snd p) \<noteq> Resolves ()) (connectionCache s)"
    using only by (intro filter_cong) auto
  finally have ca: "connectionCache (closeAllConnections w s) =
           filter (\<lambda>p. closeCall w (snd p) \<noteq> Resolves ()) (connectionCache s)" .
  show ?thesis using ev ca by (simp add: getConnectionStats_def filter_empty_conv)
qed

theorem closeAllConnections_closes_each_entry_once_witness:
  "distinct (map fst (connectionCache (performAll cachingConfig
     [(threeTenantsWorld, Acquire ''t1''), (threeTenantsWorld, Acquire ''t2''),
      (threeTenantsWorld, Acquire ''t3'')] initial)))
   \<and> filter isCloseEvent (trace (closeAllConnections threeTenantsWorld (performAll cachingConfig
     [(threeTenantsWorld, Acquire ''t1''), (threeTenantsWorld, Acquire ''t2''),
      (threeTenantsWorld, Acquire ''t3'')] initial)))
      = [DestroyCalled 0, DestroyCalled 1, DestroyCalled 2]
   \<and> totalConnections (getConnectionStats (closeAllConnections threeTenantsWorld (performAll cachingConfig
     [(threeTenantsWorld, Acquire ''t1''), (threeTenantsWorld, Acquire ''t2''),
      (threeTenantsWorld, Acquire ''t3'')] initial))) = 0"
  using closeAllConnections_closes_each_entry_once [of "performAll cachingConfig
     [(threeTenantsWorld, Acquire ''t1''), (threeTenantsWorld, Acquire ''t2''),
      (threeTenantsWorld, Acquire ''t3'')] initial" threeTenantsWorld]
  unfolding three_acquired
  by (simp add: closeCall_def closeEvent_def threeTenantsWorld_def goodWorld_def)

text \<open>
  The claim as first stated fails: after three successful calls for three tenants, a
  shutdown during which the second connection refuses to close leaves that entry in the
  cache, and \<^verbatim>\<open>getConnectionStats\<close> reports one connection.
\<close>

theorem closeAllConnections_counterexample:
  "totalConnections (getConnectionStats (closeAllConnections stubbornWorld (performAll cachingConfig
     [(threeTenantsWorld, Acquire ''t1''), (threeTenantsWorld, Acquire ''t2''),
      (threeTenantsWorld, Acquire ''t3'')] initial))) = 1
   \<and> activeTenants (getConnectionStats (closeAllConnections stubbornWorld (performAll cachingConfig
     [(threeTenantsWorld, Acquire ''t1''), (threeTenantsWorld, Acquire ''t2''),
      (threeTenantsWorld, Acquire ''t3'')] initial))) = [''t2'']"
  unfolding three_acquired
  by (simp add: closeAllConnections_def closeSettled_def closeCall_def
      closeEvent_def stubbornWorld_def threeTenantsWorld_def goodWorld_def getConnectionStats_def
      Let_def)

text \<open>A shutdown after one call, a second call, and the first timer elapsing, step by step.\<close>

lemma one_closed:
  "closeAllConnections goodWorld
     \<lparr>connectionCache = [(''t1'', DataSource 0)], connectionTimers = [(''t1'', 0)],
      pending = [(0, ''t1'', 300000)], nextTimer = 1, nextObject = 1,
      trace = [FindOneCalled ''t1'', InitializeCalled ''t1'' 0]\<rparr>
   = \<lparr>connectionCache = [], connectionTimers = [],
      pending = [(0, ''t1'', 300000)], nextTimer = 1, nextObject = 1,
      trace = [FindOneCalled ''t1'', InitializeCalled ''t1'' 0, DestroyCalled 0]\<rparr>"
  by (simp add: closeAllConnections_def closeSettled_def closeCall_def closeEvent_def
      goodWorld_def Let_def)

lemma one_acquired_again:
  "getTenantConnection cachingConfig goodWorld ''t1''
     \<lparr>connectionCache = [], connectionTimers = [],
      pending = [(0, ''t1'', 300000)], nextTimer = 1, nextObject = 1,
      trace = [FindOneCalled ''t1'', InitializeCalled ''t1'' 0, DestroyCalled 0]\<rparr>
   = (Inr (DataSource 1),
      \<lparr>connectionCache = [(''t1'', DataSource 1)], connectionTimers = [(''t1'', 1)],
       pending = [(0, ''t1'', 300000), (1, ''t1'', 300000)], nextTimer = 2, nextObject = 2,
       trace = [FindOneCalled ''t1'', InitializeCalled ''t1'' 0, DestroyCalled 0,
                FindOneCalled ''t1'', InitializeCalled ''t1'' 1]\<rparr>)"
  by (simp add: goodWorld_def cachingConfig_def tenant1_def
      getTenantConnection_def getTenantInfo_def createTenantConnection_def
      createSqlConnection_def cacheEnabled_def MYSQL_def setConnectionTimer_def
      orDefault_def DEFAULT_IDLE_TIMEOUT_def Let_def)

lemma stale_timer_fires:
  "timerFires goodWorld 0
     \<lparr>connectionCache = [(''t1'', DataSource 1)], connectionTimers = [(''t1'', 1)],
      pending = [(0, ''t1'', 300000), (1, ''t1'', 300000)], nextTimer = 2, nextObject = 2,
      trace = [FindOneCalled ''t1'', InitializeCalled ''t1'' 0, DestroyCalled 0,
               FindOneCalled ''t1'', InitializeCalled ''t1'' 1]\<rparr>
   = \<lparr>connectionCache = [], connectionTimers = [], pending = [(1, ''t1'', 300000)],
      nextTimer = 2, nextObject = 2,
      trace = [FindOneCalled ''t1'', InitializeCalled ''t1'' 0, DestroyCalled 0,
               FindOneCalled ''t1'', InitializeCalled ''t1'' 1, DestroyCalled 1]\<rparr>"
  by (simp add: timerFires_def clearTimeout_def closeConnection_def closeSettled_def closeCall_def closeEvent_def
      goodWorld_def Let_def)

text \<open>
  Claim C7 does not hold of the code. After one call for \<open>t1\<close> and a shutdown, the cache
  and the timer map are empty but the idle timer \<open>0\<close> of \<open>t1\<close> is still armed:
  \<^verbatim>\<open>closeConnection\<close> deletes the timer from \<^verbatim>\<open>connectionTimers\<close> without
  \<^verbatim>\<open>clearTimeout\<close>. When \<open>t1\<close> is connected again and the old timer then elapses, it
  closes the new connection (object \<open>1\<close>), whose own timer \<open>1\<close> is still armed.
\<close>

theorem shutdown_leaves_idle_timer_armed:
  "connectionCache (closeAllConnections goodWorld
      (snd (getTenantConnection cachingConfig goodWorld ''t1'' initial))) = []
   \<and> connectionTimers (closeAllConnections goodWorld
      (snd (getTenantConnection cachingConfig goodWorld ''t1'' initial))) = []
   \<and> pending (closeAllConnections goodWorld
      (snd (getTenantConnection cachingConfig goodWorld ''t1'' initial))) = [(0, ''t1'', 300000)]
   \<and> performAll cachingConfig
        [(goodWorld, Acquire ''t1''), (goodWorld, CloseAll), (goodWorld, Acquire ''t1''),
         (goodWorld, TimerElapses 0)] initial
      = \<lparr>connectionCache = [], connectionTimers = [], pending = [(1, ''t1'', 300000)],
         nextTimer = 2, nextObject = 2,
         trace = [FindOneCalled ''t1'', InitializeCalled ''t1'' 0, DestroyCalled 0,
                  FindOneCalled ''t1'', InitializeCalled ''t1'' 1, DestroyCalled 1]\<rparr>"
  by (simp only: performAll_def fold_simps o_apply id_apply perform.simps one_acquired snd_conv
      one_closed one_acquired_again stale_timer_fires State.select_convs simp_thms)

subsection \<open>One cache entry per key\<close>

lemma setConnectionTimer_cache [simp]:
  "connectionCache (setConnectionTimer cfg k s) = connectionCache s"
  by (simp add: setConnectionTimer_def Let_def)

lemma resume_distinct:
  assumes "distinct (map fst (connectionCache s))"
  shows "distinct (map fst (connectionCache (snd (resume cfg w t s))))"
  using assms
  by (cases t)
     (auto simp: resetConnectionTimer_frame distinct_update distinct_delete closeSettled_def
       split: outcome.splits option.splits Connection.splits)

lemma startClose_distinct:
  assumes "distinct (map fst (connectionCache (snd c)))"
  shows "distinct (map fst (connectionCache (snd (startClose cfg w k c))))"
  using resume_distinct [OF assms, of cfg w "CloseConnection k"]
  by (simp add: startClose_def case_prod_beta)

lemma fold_startClose_distinct:
  "distinct (map fst (connectionCache (snd c))) \<Longrightarrow>
   distinct (map fst (connectionCache (snd (fold (startClose cfg w) ks c))))"
  by (induction ks arbitrary: c) (simp_all add: startClose_distinct)

lemma act_distinct:
  assumes "distinct (map fst (connectionCache (snd c)))"
  shows "distinct (map fst (connectionCache (snd (act cfg w a c))))"
proof (cases c)
  case (Pair ts s)
  then have d: "distinct (map fst (connectionCache s))" using assms by simp
  show ?thesis
  proof (cases a)
    case (Resume i)
    then show ?thesis
      using Pair d resume_distinct [OF d, of cfg w "ts ! i"] by (simp add: case_prod_beta)
  next
    case (Fire timer)
    have "distinct (map fst (connectionCache (snd (ts, clearTimeout timer s))))"
      using d by (simp add: clearTimeout_def)
    then show ?thesis
      using Pair d Fire startClose_distinct by (simp add: case_prod_beta split: option.splits)
  next
    case Shutdown
    then show ?thesis
      using Pair fold_startClose_distinct [of "(ts, s)"] d by simp
  qed
qed

lemma run_distinct:
  "distinct (map fst (connectionCache (snd c))) \<Longrightarrow>
   distinct (map fst (connectionCache (snd (run cfg w actions c))))"
  unfolding run_def
  by (induction actions arbitrary: c) (simp_all add: act_distinct)

lemma acquireTimes_hits:
  assumes "cacheEnabled cfg"
  shows "map_of (connectionCache s) k = Some c \<Longrightarrow>
     fst (acquireTimes cfg w k n s) = replicate n (Inr c)
     \<and> trace (snd (acquireTimes cfg w k n s)) = trace s
     \<and> connectionCache (snd (acquireTimes cfg w k n s)) = connectionCache s"
proof (induction n arbitrary: s)
  case 0
  then show ?case by simp
next
  case (Suc n)
  let ?s1 = "resetConnectionTimer cfg k s"
  have h: "map_of (connectionCache ?s1) k = Some c"
    using Suc.prems by (simp add: resetConnectionTimer_frame)
  show ?case
    using Suc.IH [OF h] getTenantConnection_hit [OF assms Suc.prems, of w]
    by (simp add: resetConnectionTimer_frame case_prod_beta)
qed

text \<open>
  Claim C1, as amended. The cache never holds two entries for one key, however calls,
  timers and shutdowns interleave. When \<open>n > 0\<close> calls of \<^verbatim>\<open>getTenantConnection\<close> for
  one key are made one after the other, each returning before the next is made, on a
  cache without an entry for the key (caching enabled, tenant found and active, connector
  succeeding), the connector is called exactly once and all \<open>n\<close> calls return the same
  connection, which is the entry stored for the key.
\<close>

theorem one_entry_per_key_and_one_connect_for_successive_calls:
  "(distinct (map fst (connectionCache s)) \<longrightarrow>
      distinct (map fst (connectionCache (snd (run cfg w actions (ts, s))))))
   \<and> (cacheEnabled cfg \<and> supportedDriver cfg \<and> map_of (connectionCache s) tenantId = None
      \<and> findOne w tenantId = Resolves (Some tenantInfo) \<and> isActive tenantInfo
      \<and> connectorOutcome cfg w tenantInfo = Resolves () \<and> 0 < n \<longrightarrow>
        fst (acquireTimes cfg w tenantId n s) = replicate n (Inr (newConnection cfg (nextObject s)))
      \<and> connectorCalls (snd (acquireTimes cfg w tenantId n s)) = Suc (connectorCalls s)
      \<and> map_of (connectionCache (snd (acquireTimes cfg w tenantId n s))) tenantId
          = Some (newConnection cfg (nextObject s)))"
proof (intro conjI impI)
  assume "distinct (map fst (connectionCache s))"
  then show "distinct (map fst (connectionCache (snd (run cfg w actions (ts, s)))))"
    using run_distinct [of "(ts, s)" cfg w actions] by simp
next
  assume h: "cacheEnabled cfg \<and> supportedDriver cfg \<and> map_of (connectionCache s) tenantId = None
      \<and> findOne w tenantId = Resolves (Some tenantInfo) \<and> isActive tenantInfo
      \<and> connectorOutcome cfg w tenantInfo = Resolves () \<and> 0 < n"
  then obtain m where n: "n = Suc m" by (cases n) auto
  let ?c = "newConnection cfg (nextObject s)"
  obtain s1 where first: "getTenantConnection cfg w tenantId s = (Inr ?c, s1)"
    and c1: "map_of (connectionCache s1) tenantId = Some ?c"
    and t1: "connectorCalls s1 = Suc (connectorCalls s)"
    using h getTenantConnection_miss_resolves [of cfg s tenantId w tenantInfo "()"]
    by (auto simp: update_conv' connectorCalls_def)
  note rest = acquireTimes_hits [of cfg s1 tenantId ?c w m, OF _ c1]
  have "fst (acquireTimes cfg w tenantId n s) = replicate n (Inr ?c)
      \<and> connectorCalls (snd (acquireTimes cfg w tenantId n s)) = Suc (connectorCalls s)
      \<and> map_of (connectionCache (snd (acquireTimes cfg w tenantId n s))) tenantId = Some ?c"
    using h rest first c1 t1 by (simp add: n connectorCalls_def case_prod_beta)
  then show "fst (acquireTimes cfg w tenantId n s) = replicate n (Inr ?c)"
    and "connectorCalls (snd (acquireTimes cfg w tenantId n s)) = Suc (connectorCalls s)"
    and "map_of (connectionCache (snd (acquireTimes cfg w tenantId n s))) tenantId = Some ?c"
    by simp_all
qed

theorem one_entry_per_key_and_one_connect_for_successive_calls_witness:
  "distinct (map fst (connectionCache initial))
   \<and> distinct (map fst (connectionCache (snd (run cachingConfig goodWorld
        [Resume 0, Resume 1, Fire 0, Resume 0, Resume 1, Shutdown, Resume 0, Resume 1]
        ([GetTenantConnection ''t1'', GetTenantConnection ''t1''], initial)))))
   \<and> cacheEnabled cachingConfig \<and> supportedDriver cachingConfig
   \<and> map_of (connectionCache initial) ''t1'' = None
   \<and> findOne goodWorld ''t1'' = Resolves (Some tenant1) \<and> isActive tenant1
   \<and> connectorOutcome cachingConfig goodWorld tenant1 = Resolves ()
   \<and> fst (acquireTimes cachingConfig goodWorld ''t1'' 3 initial) = replicate 3 (Inr (DataSource 0))
   \<and> connectorCalls (snd (acquireTimes cachingConfig goodWorld ''t1'' 3 initial)) = 1"
  using one_entry_per_key_and_one_connect_for_successive_calls
    [of initial cachingConfig goodWorld
        "[Resume 0, Resume 1, Fire 0, Resume 0, Resume 1, Shutdown, Resume 0, Resume 1]"
        "[GetTenantConnection ''t1'', GetTenantConnection ''t1'']" "''t1''" tenant1 3]
  by (simp add: initial_def cacheEnabled_def cachingConfig_def supportedDriver_def MYSQL_def
      goodWorld_def tenant1_def connectorOutcome_def newConnection_def connectorCalls_def)

text \<open>
  The claim as first stated fails: creation is not serialized per key. Two calls for
  \<open>t1\<close> that overlap on an empty cache both find no entry, both call the connector, and
  return two different connections; the cache keeps the one stored last.
\<close>

theorem overlapping_cold_acquires_counterexample:
  "fst (run cachingConfig goodWorld
     [Resume 0, Resume 1, Resume 0, Resume 1, Resume 0, Resume 1]
     ([GetTenantConnection ''t1'', GetTenantConnection ''t1''], initial))
     = [Returned (DataSource 0), Returned (DataSource 1)]
   \<and> connectorCalls (snd (run cachingConfig goodWorld
     [Resume 0, Resume 1, Resume 0, Resume 1, Resume 0, Resume 1]
     ([GetTenantConnection ''t1'', GetTenantConnection ''t1''], initial))) = 2
   \<and> connectionCache (snd (run cachingConfig goodWorld
     [Resume 0, Resume 1, Resume 0, Resume 1, Resume 0, Resume 1]
     ([GetTenantConnection ''t1'', GetTenantConnection ''t1''], initial)))
     = [(''t1'', DataSource 1)]"
  unfolding overlapping_acquires by (simp add: connectorCalls_def)

subsection \<open>Cache hits and idle timers\<close>

lemma resetConnectionTimer_pending:
  "pending (resetConnectionTimer cfg k s) =
     filter (\<lambda>p. Some (fst p) \<noteq> map_of (connectionTimers s) k) (pending s)
       @ [(nextTimer s, k, orDefault (idleTimeout cfg) DEFAULT_IDLE_TIMEOUT)]"
  by (simp add: resetConnectionTimer_def setConnectionTimer_def clearTimeout_def Let_def
      split: option.splits)

lemma resetConnectionTimer_recorded:
  "map_of (connectionTimers (resetConnectionTimer cfg k s)) k = Some (nextTimer s)"
  by (simp add: resetConnectionTimer_def setConnectionTimer_def clearTimeout_def Let_def
      update_conv' split: option.splits)

text \<open>
  \<open>timersRecorded\<close> holds in the initial state and is kept by every call of
  \<^verbatim>\<open>getTenantConnection\<close> and \<^verbatim>\<open>getTenantContext\<close> and by every timer that elapses,
  provided each of them, the call of \<^verbatim>\<open>closeConnection\<close> made by a timer included, has
  run to its end before the next begins. \<^verbatim>\<open>closeAllConnections\<close> does not keep it.
\<close>

lemma timersRecorded_iff:
  "timersRecorded s \<longleftrightarrow>
     (\<forall>p \<in> set (pending s). map_of (connectionTimers s) (fst (snd p)) = Some (fst p))
     \<and> (\<forall>e \<in> set (connectionTimers s). map_of (connectionCache s) (fst e) \<noteq> None)"
  by (simp add: timersRecorded_def list_all_iff)

lemma timersRecorded_no_timer_without_entry:
  assumes "timersRecorded s" and "map_of (connectionCache s) k = None"
  shows "map_of (connectionTimers s) k = None"
proof (rule ccontr)
  assume "map_of (connectionTimers s) k \<noteq> None"
  then obtain t where "map_of (connectionTimers s) k = Some t" by auto
  then have "(k, t) \<in> set (connectionTimers s)" by (rule map_of_SomeD)
  then show False using assms by (auto simp: timersRecorded_iff)
qed

lemma timersRecorded_trace [simp]:
  "timersRecorded (s\<lparr>trace := tr\<rparr>) = timersRecorded s"
  "timersRecorded (s\<lparr>nextObject := n, trace := tr\<rparr>) = timersRecorded s"
  by (simp_all add: timersRecorded_def)

lemma timersRecorded_getTenantInfo:
  "timersRecorded (snd (getTenantInfo w k s)) = timersRecorded s"
  by (simp add: getTenantInfo_def split: outcome.splits)

lemma timersRecorded_createTenantConnection:
  "timersRecorded (snd (createTenantConnection cfg w i s)) = timersRecorded s"
  by (simp add: timersRecorded_def createTenantConnection_frame)

lemma timersRecorded_reset:
  assumes "timersRecorded s" and "map_of (connectionCache s) k = Some c"
  shows "timersRecorded (resetConnectionTimer cfg k s)"
proof -
  have a: "map_of (connectionTimers (resetConnectionTimer cfg k s)) k' =
      (if k' = k then Some (nextTimer s) else map_of (connectionTimers s) k')" for k'
    by (simp add: resetConnectionTimer_def setConnectionTimer_def clearTimeout_def Let_def
        update_conv' split: option.splits)
  have b: "fst ` set (connectionTimers (resetConnectionTimer cfg k s))
      = {k} \<union> fst ` set (connectionTimers s)"
    by (simp add: resetConnectionTimer_def setConnectionTimer_def clearTimeout_def Let_def
        dom_update split: option.splits)
  show ?thesis
    unfolding timersRecorded_iff
  proof (intro conjI ballI)
    fix p assume "p \<in> set (pending (resetConnectionTimer cfg k s))"
    then show "map_of (connectionTimers (resetConnectionTimer cfg k s)) (fst (snd p)) = Some (fst p)"
      using assms(1) by (auto simp: a resetConnectionTimer_pending timersRecorded_iff)
  next
    fix e assume "e \<in> set (connectionTimers (resetConnectionTimer cfg k s))"
    then have "fst e = k \<or> fst e \<in> fst ` set (connectionTimers s)" using b by auto
    then show "map_of (connectionCache (resetConnectionTimer cfg k s)) (fst e) \<noteq> None"
      using assms by (auto simp: resetConnectionTimer_frame timersRecorded_iff)
  qed
qed

lemma setConnectionTimer_timers:
  "connectionTimers (setConnectionTimer cfg k s) = AList.update k (nextTimer s) (connectionTimers s)"
  "pending (setConnectionTimer cfg k s) =
     pending s @ [(nextTimer s, k, orDefault (idleTimeout cfg) DEFAULT_IDLE_TIMEOUT)]"
  by (simp_all add: setConnectionTimer_def Let_def)

lemma timersRecorded_store:
  assumes "timersRecorded s" and "map_of (connectionCache s) k = None"
  shows "timersRecorded
    (setConnectionTimer cfg k (s\<lparr>connectionCache := AList.update k c (connectionCache s)\<rparr>))"
proof -
  have none: "map_of (connectionTimers s) k = None"
    using assms by (rule timersRecorded_no_timer_without_entry)
  show ?thesis
    unfolding timersRecorded_iff
  proof (intro conjI ballI)
    fix p
    assume "p \<in> set (pending (setConnectionTimer cfg k
      (s\<lparr>connectionCache := AList.update k c (connectionCache s)\<rparr>)))"
    then show "map_of (connectionTimers (setConnectionTimer cfg k
      (s\<lparr>connectionCache := AList.update k c (connectionCache s)\<rparr>))) (fst (snd p)) = Some (fst p)"
      using assms(1) none
      by (auto simp: setConnectionTimer_timers update_conv' timersRecorded_iff)
  next
    fix e
    assume "e \<in> set (connectionTimers (setConnectionTimer cfg k
      (s\<lparr>connectionCache := AList.update k c (connectionCache s)\<rparr>)))"
    then have "fst e \<in> {k} \<union> fst ` set (connectionTimers s)"
      using dom_update [of k "nextTimer s" "connectionTimers s"]
      by (simp add: setConnectionTimer_timers) blast
    then show "map_of (connectionCache (setConnectionTimer cfg k
      (s\<lparr>connectionCache := AList.update k c (connectionCache s)\<rparr>))) (fst e) \<noteq> None"
      using assms(1) by (auto simp: update_conv' timersRecorded_iff)
  qed
qed

lemma find_SomeD: "find P xs = Some x \<Longrightarrow> P x \<and> x \<in> set xs"
  by (induction xs) (auto split: if_splits)

lemma timersRecorded_getTenantConnection:
  assumes "timersRecorded s"
  shows "timersRecorded (snd (getTenantConnection cfg w k s))"
proof (cases "cacheEnabled cfg \<and> map_of (connectionCache s) k \<noteq> None")
  case True
  then obtain c where c: "cacheEnabled cfg" "map_of (connectionCache s) k = Some c" by auto
  show ?thesis
    using timersRecorded_reset [OF assms c(2), of cfg] by (simp add: getTenantConnection_hit [OF c])
next
  case False
  obtain i s1 where a: "getTenantInfo w k s = (i, s1)" by (cases "getTenantInfo w k s")
  have r1: "timersRecorded s1" and c1: "connectionCache s1 = connectionCache s"
    using timersRecorded_getTenantInfo [of w k s] getTenantInfo_frame(1) [of w k s] a assms
    by simp_all
  show ?thesis
  proof (cases i)
    case None
    then show ?thesis using False a r1 by (auto simp: getTenantConnection_def)
  next
    case (Some ti)
    obtain r s2 where b: "createTenantConnection cfg w ti s1 = (r, s2)"
      by (cases "createTenantConnection cfg w ti s1")
    have r2: "timersRecorded s2" and c2: "connectionCache s2 = connectionCache s"
      using timersRecorded_createTenantConnection [of cfg w ti s1]
        createTenantConnection_frame(1) [of cfg w ti s1] b r1 c1
      by simp_all
    show ?thesis
    proof (cases "cacheEnabled cfg")
      case True
      then have "map_of (connectionCache s2) k = None" using False c2 by simp
      then show ?thesis
        using False a b Some r1 r2 timersRecorded_store [OF r2, of k cfg]
        by (auto simp: getTenantConnection_def split: sum.splits)
    next
      case False
      then show ?thesis
        using a b Some r1 r2 by (auto simp: getTenantConnection_def split: sum.splits)
    qed
  qed
qed

lemma timersRecorded_getTenantContext:
  assumes "timersRecorded s"
  shows "timersRecorded (snd (getTenantContext cfg w k s))"
proof -
  obtain i s1 where a: "getTenantInfo w k s = (i, s1)" by (cases "getTenantInfo w k s")
  have r1: "timersRecorded s1"
    using timersRecorded_getTenantInfo [of w k s] a assms by simp
  show ?thesis
    using a r1 timersRecorded_getTenantConnection [OF r1, of cfg w k]
    by (simp add: getTenantContext_def case_prod_beta split: option.splits sum.splits)
qed

lemma timersRecorded_timerFires:
  assumes "timersRecorded s"
  shows "timersRecorded (timerFires w timer s)"
proof (cases "find (\<lambda>p. fst p = timer) (pending s)")
  case None
  then show ?thesis using assms by (simp add: timerFires_def)
next
  case (Some p)
  obtain t k d where p: "p = (t, k, d)" by (cases p)
  have t: "t = timer" and mem: "(timer, k, d) \<in> set (pending s)"
    using find_SomeD [OF Some] p by auto
  have rec: "map_of (connectionTimers s) k = Some timer"
    using assms mem by (auto simp: timersRecorded_iff)
  let ?s0 = "clearTimeout timer s"
  have r0: "timersRecorded ?s0"
    using assms by (auto simp: timersRecorded_iff clearTimeout_def)
  have fired: "timerFires w timer s = closeConnection w k ?s0"
    using Some p by (simp add: timerFires_def)
  show ?thesis
  proof (cases "map_of (connectionCache ?s0) k")
    case None
    then show ?thesis using r0 fired by (simp add: closeConnection_none)
  next
    case (Some c)
    show ?thesis
    proof (cases "closeCall w c")
      case (Rejects e)
      then show ?thesis using r0 fired Some by (simp add: closeConnection_rejects)
    next
      case (Resolves u)
      have gone: "fst (snd q) \<noteq> k" if "q \<in> set (pending ?s0)" for q
      proof
        assume "fst (snd q) = k"
        moreover have "q \<in> set (pending s)" "fst q \<noteq> timer"
          using that by (auto simp: clearTimeout_def)
        ultimately show False using assms rec by (auto simp: timersRecorded_iff)
      qed
      have "timersRecorded
        (?s0\<lparr>connectionCache := AList.delete k (connectionCache ?s0),
              connectionTimers := AList.delete k (connectionTimers ?s0),
              trace := trace ?s0 @ [closeEvent c]\<rparr>)"
        unfolding timersRecorded_iff
      proof (intro conjI ballI)
        fix q
        assume "q \<in> set (pending (?s0\<lparr>connectionCache := AList.delete k (connectionCache ?s0),
              connectionTimers := AList.delete k (connectionTimers ?s0),
              trace := trace ?s0 @ [closeEvent c]\<rparr>))"
        then have q: "q \<in> set (pending ?s0)" by simp
        then show "map_of (connectionTimers (?s0\<lparr>connectionCache := AList.delete k (connectionCache ?s0),
              connectionTimers := AList.delete k (connectionTimers ?s0),
              trace := trace ?s0 @ [closeEvent c]\<rparr>)) (fst (snd q)) = Some (fst q)"
          using r0 gone [OF q] by (simp add: timersRecorded_iff)
      next
        fix e
        assume "e \<in> set (connectionTimers (?s0\<lparr>connectionCache := AList.delete k (connectionCache ?s0),
              connectionTimers := AList.delete k (connectionTimers ?s0),
              trace := trace ?s0 @ [closeEvent c]\<rparr>))"
        then have "e \<in> set (connectionTimers ?s0)" "fst e \<noteq> k"
          by (auto simp: AList.delete_eq)
        then show "map_of (connectionCache (?s0\<lparr>connectionCache := AList.delete k (connectionCache ?s0),
              connectionTimers := AList.delete k (connectionTimers ?s0),
              trace := trace ?s0 @ [closeEvent c]\<rparr>)) (fst e) \<noteq> None"
          using r0 by (simp add: timersRecorded_iff)
      qed
      then show ?thesis using fired Some Resolves by (simp add: closeConnection_resolves)
    qed
  qed
qed

lemma timersRecorded_perform:
  assumes "timersRecorded s" and "\<not> isCloseAll c"
  shows "timersRecorded (perform cfg c s)"
proof (cases c)
  case (Pair w call)
  then show ?thesis
    using assms timersRecorded_getTenantConnection timersRecorded_getTenantContext
      timersRecorded_timerFires
    by (cases call) simp_all
qed

lemma timersRecorded_performAll:
  assumes "list_all (\<lambda>c. \<not> isCloseAll c) calls"
  shows "timersRecorded s \<Longrightarrow> timersRecorded (performAll cfg calls s)"
  using assms unfolding performAll_def
  by (induction calls arbitrary: s) (simp_all add: timersRecorded_perform)

lemma timersRecorded_initial: "timersRecorded initial"
  by (simp add: timersRecorded_def initial_def)

lemma timersRecorded_one_timer_per_key:
  assumes "timersRecorded s" and "p \<in> set (pending s)" and "fst (snd p) = k"
  shows "map_of (connectionTimers s) k = Some (fst p)"
  using assms by (auto simp: timersRecorded_iff)

text \<open>
  Claim C4, as amended. With caching enabled, a call of \<^verbatim>\<open>getTenantConnection\<close> for a
  key that has a cache entry returns the cached connection without calling the
  repository or the connector, clears the timer recorded for the key and arms and records
  a new one. If every timer armed for the key before the call is the recorded one, exactly
  one timer is armed for the key after the call. This is so in every state reached from the
  initial state by calls of \<^verbatim>\<open>getTenantConnection\<close> and \<^verbatim>\<open>getTenantContext\<close> and by
  timers that elapse, when each of these, the call of \<^verbatim>\<open>closeConnection\<close> made by the
  timer included, has run to its end before the next begins (the sequences of
  \<open>performAll\<close> without \<open>CloseAll\<close>).
\<close>

theorem cache_hit_returns_entry_and_rearms_timer:
  assumes "cacheEnabled cfg" and "map_of (connectionCache s) tenantId = Some c"
    and "getTenantConnection cfg w tenantId s = (r, s')"
  shows "r = Inr c \<and> trace s' = trace s \<and> connectionCache s' = connectionCache s
       \<and> pending s' =
           filter (\<lambda>p. Some (fst p) \<noteq> map_of (connectionTimers s) tenantId) (pending s)
             @ [(nextTimer s, tenantId, orDefault (idleTimeout cfg) DEFAULT_IDLE_TIMEOUT)]
       \<and> map_of (connectionTimers s') tenantId = Some (nextTimer s)
       \<and> ((\<forall>p \<in> set (pending s).
              fst (snd p) = tenantId \<longrightarrow> map_of (connectionTimers s) tenantId = Some (fst p)) \<longrightarrow>
            filter (\<lambda>p. fst (snd p) = tenantId) (pending s')
              = [(nextTimer s, tenantId, orDefault (idleTimeout cfg) DEFAULT_IDLE_TIMEOUT)])
       \<and> (\<forall>calls. list_all (\<lambda>c. \<not> isCloseAll c) calls \<and> s = performAll cfg calls initial \<longrightarrow>
            filter (\<lambda>p. fst (snd p) = tenantId) (pending s')
              = [(nextTimer s, tenantId, orDefault (idleTimeout cfg) DEFAULT_IDLE_TIMEOUT)])"
proof -
  have r: "r = Inr c" and s': "s' = resetConnectionTimer cfg tenantId s"
    using getTenantConnection_hit [OF assms(1,2), of w] assms(3) by simp_all
  have one: "filter (\<lambda>p. fst (snd p) = tenantId)
        (filter (\<lambda>p. Some (fst p) \<noteq> map_of (connectionTimers s) tenantId) (pending s)) = []"
    if "\<forall>p \<in> set (pending s).
              fst (snd p) = tenantId \<longrightarrow> map_of (connectionTimers s) tenantId = Some (fst p)"
    using that by (auto simp: filter_empty_conv)
  have reached: "\<forall>p \<in> set (pending s).
              fst (snd p) = tenantId \<longrightarrow> map_of (connectionTimers s) tenantId = Some (fst p)"
    if "list_all (\<lambda>c. \<not> isCloseAll c) calls" "s = performAll cfg calls initial" for calls
    using timersRecorded_performAll [OF that(1) timersRecorded_initial, of cfg] that(2)
      timersRecorded_one_timer_per_key [of s]
    by blast
  have both: "filter (\<lambda>p. fst (snd p) = tenantId) (pending s')
              = [(nextTimer s, tenantId, orDefault (idleTimeout cfg) DEFAULT_IDLE_TIMEOUT)]"
    if "\<forall>p \<in> set (pending s).
              fst (snd p) = tenantId \<longrightarrow> map_of (connectionTimers s) tenantId = Some (fst p)"
    using one [OF that] by (simp add: s' resetConnectionTimer_pending)
  have hit: "r = Inr c \<and> trace s' = trace s \<and> connectionCache s' = connectionCache s
       \<and> pending s' =
           filter (\<lambda>p. Some (fst p) \<noteq> map_of (connectionTimers s) tenantId) (pending s)
             @ [(nextTimer s, tenantId, orDefault (idleTimeout cfg) DEFAULT_IDLE_TIMEOUT)]
       \<and> map_of (connectionTimers s') tenantId = Some (nextTimer s)"
    using r
    by (simp add: s' resetConnectionTimer_frame resetConnectionTimer_pending
        resetConnectionTimer_recorded)
  have "\<forall>calls. list_all (\<lambda>c. \<not> isCloseAll c) calls \<and> s = performAll cfg calls initial \<longrightarrow>
            filter (\<lambda>p. fst (snd p) = tenantId) (pending s')
              = [(nextTimer s, tenantId, orDefault (idleTimeout cfg) DEFAULT_IDLE_TIMEOUT)]"
    using both reached by blast
  then show ?thesis using hit both by blast
qed

theorem cache_hit_returns_entry_and_rearms_timer_witness:
  "cacheEnabled cachingConfig
   \<and> map_of (connectionCache (snd (getTenantConnection cachingConfig goodWorld ''t1'' initial))) ''t1''
       = Some (DataSource 0)
   \<and> fst (getTenantConnection cachingConfig goodWorld ''t1''
           (snd (getTenantConnection cachingConfig goodWorld ''t1'' initial))) = Inr (DataSource 0)
   \<and> pending (snd (getTenantConnection cachingConfig goodWorld ''t1''
           (snd (getTenantConnection cachingConfig goodWorld ''t1'' initial))))
       = [(1, ''t1'', 300000)]
   \<and> pending (snd (getTenantConnection cachingConfig goodWorld ''t1'' initial))
       = [(0, ''t1'', 300000)]
   \<and> map_of (connectionTimers (snd (getTenantConnection cachingConfig goodWorld ''t1'' initial))) ''t1''
       = Some 0
   \<and> filter (\<lambda>p. fst (snd p) = ''t1'')
         (pending (snd (getTenantConnection cachingConfig goodWorld ''t1''
           (snd (getTenantConnection cachingConfig goodWorld ''t1'' initial)))))
       = [(1, ''t1'', 300000)]
   \<and> list_all (\<lambda>c. \<not> isCloseAll c) [(goodWorld, Acquire ''t1'')]
   \<and> snd (getTenantConnection cachingConfig goodWorld ''t1'' initial)
       = performAll cachingConfig [(goodWorld, Acquire ''t1'')] initial"
proof -
  have reached: "list_all (\<lambda>c. \<not> isCloseAll c) [(goodWorld, Acquire ''t1'')]
     \<and> snd (getTenantConnection cachingConfig goodWorld ''t1'' initial)
       = performAll cachingConfig [(goodWorld, Acquire ''t1'')] initial"
    by (simp add: performAll_def)
  have "cacheEnabled cachingConfig
   \<and> map_of (connectionCache (snd (getTenantConnection cachingConfig goodWorld ''t1'' initial))) ''t1''
       = Some (DataSource 0)
   \<and> fst (getTenantConnection cachingConfig goodWorld ''t1''
           (snd (getTenantConnection cachingConfig goodWorld ''t1'' initial))) = Inr (DataSource 0)
   \<and> pending (snd (getTenantConnection cachingConfig goodWorld ''t1''
           (snd (getTenantConnection cachingConfig goodWorld ''t1'' initial))))
       = [(1, ''t1'', 300000)]
   \<and> pending (snd (getTenantConnection cachingConfig goodWorld ''t1'' initial))
       = [(0, ''t1'', 300000)]
   \<and> map_of (connectionTimers (snd (getTenantConnection cachingConfig goodWorld ''t1'' initial))) ''t1''
       = Some 0
   \<and> filter (\<lambda>p. fst (snd p) = ''t1'')
         (pending (snd (getTenantConnection cachingConfig goodWorld ''t1''
           (snd (getTenantConnection cachingConfig goodWorld ''t1'' initial)))))
       = [(1, ''t1'', 300000)]"
    using cache_hit_returns_entry_and_rearms_timer
      [of cachingConfig "snd (getTenantConnection cachingConfig goodWorld ''t1'' initial)" "''t1''"
          "DataSource 0" goodWorld
          "fst (getTenantConnection cachingConfig goodWorld ''t1''
             (snd (getTenantConnection cachingConfig goodWorld ''t1'' initial)))"
          "snd (getTenantConnection cachingConfig goodWorld ''t1''
             (snd (getTenantConnection cachingConfig goodWorld ''t1'' initial)))"]
    unfolding one_acquired
    by (simp add: cacheEnabled_def cachingConfig_def orDefault_def DEFAULT_IDLE_TIMEOUT_def)
  then show ?thesis using reached by simp
qed

text \<open>
  The claim as first stated fails: after two overlapping calls for \<open>t1\<close> on an empty
  cache, timer \<open>0\<close> is armed but not recorded. A later call that hits the cache clears
  only the recorded timer \<open>1\<close> and arms timer \<open>2\<close>, so two timers are armed for
  \<open>t1\<close>; timer \<open>0\<close> elapses first and closes the connection although it has just been
  used, and timer \<open>2\<close> is still armed then.
\<close>

theorem cache_hit_counterexample:
  "map_of (connectionCache (snd (run cachingConfig goodWorld
      [Resume 0, Resume 1, Resume 0, Resume 1, Resume 0, Resume 1]
      ([GetTenantConnection ''t1'', GetTenantConnection ''t1''], initial)))) ''t1''
     = Some (DataSource 1)
   \<and> fst (getTenantConnection cachingConfig goodWorld ''t1'' (snd (run cachingConfig goodWorld
      [Resume 0, Resume 1, Resume 0, Resume 1, Resume 0, Resume 1]
      ([GetTenantConnection ''t1'', GetTenantConnection ''t1''], initial))))
     = Inr (DataSource 1)
   \<and> pending (snd (getTenantConnection cachingConfig goodWorld ''t1'' (snd (run cachingConfig goodWorld
      [Resume 0, Resume 1, Resume 0, Resume 1, Resume 0, Resume 1]
      ([GetTenantConnection ''t1'', GetTenantConnection ''t1''], initial)))))
     = [(0, ''t1'', 300000), (2, ''t1'', 300000)]
   \<and> connectionCache (timerFires goodWorld 0
        (snd (getTenantConnection cachingConfig goodWorld ''t1'' (snd (run cachingConfig goodWorld
          [Resume 0, Resume 1, Resume 0, Resume 1, Resume 0, Resume 1]
          ([GetTenantConnection ''t1'', GetTenantConnection ''t1''], initial)))))) = []
   \<and> pending (timerFires goodWorld 0
        (snd (getTenantConnection cachingConfig goodWorld ''t1'' (snd (run cachingConfig goodWorld
          [Resume 0, Resume 1, Resume 0, Resume 1, Resume 0, Resume 1]
          ([GetTenantConnection ''t1'', GetTenantConnection ''t1''], initial))))))
     = [(2, ''t1'', 300000)]"
  unfolding overlapping_acquires
  by (simp add: getTenantConnection_def cacheEnabled_def cachingConfig_def
      resetConnectionTimer_def setConnectionTimer_def clearTimeout_def orDefault_def
      DEFAULT_IDLE_TIMEOUT_def timerFires_def closeConnection_def closeSettled_def closeCall_def
      closeEvent_def
      goodWorld_def Let_def)

text \<open>
  The side condition also fails without two calls of \<^verbatim>\<open>getTenantConnection\<close>
  overlapping, when a call overlaps the \<^verbatim>\<open>closeConnection\<close> of a timer. After the first
  call, timer \<open>0\<close> elapses and its \<^verbatim>\<open>closeConnection\<close> awaits \<^verbatim>\<open>destroy()\<close>; the second
  call still hits the cache and arms timer \<open>1\<close>; the close then settles and deletes the
  entry and the timer record, leaving timer \<open>1\<close> armed; the third call connects anew and
  arms timer \<open>2\<close>; the fourth call hits the cache, clears timer \<open>2\<close> and arms timer
  \<open>3\<close>, so timers \<open>1\<close> and \<open>3\<close> are both armed for \<open>t1\<close>.
\<close>

lemma hit_while_idle_close_is_awaited:
  "run cachingConfig goodWorld
     [Resume 0, Resume 0, Resume 0, Fire 0, Resume 1, Resume 4,
      Resume 2, Resume 2, Resume 2, Resume 3]
     ([GetTenantConnection ''t1'', GetTenantConnection ''t1'', GetTenantConnection ''t1'',
       GetTenantConnection ''t1''], initial)
   = ([Returned (DataSource 0), Returned (DataSource 0), Returned (DataSource 1),
       Returned (DataSource 1), Finished],
      \<lparr>connectionCache = [(''t1'', DataSource 1)], connectionTimers = [(''t1'', 3)],
       pending = [(1, ''t1'', 300000), (3, ''t1'', 300000)], nextTimer = 4, nextObject = 2,
       trace = [FindOneCalled ''t1'', InitializeCalled ''t1'' 0, DestroyCalled 0,
                FindOneCalled ''t1'', InitializeCalled ''t1'' 1]\<rparr>)"
  by (simp add: run_def initial_def cachingConfig_def goodWorld_def tenant1_def cacheEnabled_def
      MYSQL_def setConnectionTimer_def resetConnectionTimer_def clearTimeout_def startClose_def
      closeSettled_def closeCall_def closeEvent_def orDefault_def DEFAULT_IDLE_TIMEOUT_def
      Let_def eval_nat_numeral)

end
